theory Spec2Isabelle
  imports Complex_Main "HOL-Library.AList"
begin

section \<open>Strings\<close>

text \<open>
  JavaScript strings are modelled as \<open>string\<close> (lists of 8-bit characters), so the
  model covers the Latin-1 range; every literal the gateway compares against is ASCII.
\<close>

definition startsWith :: "string \<Rightarrow> string \<Rightarrow> bool" where
  \<comment> \<open>\<open>s.startsWith(p)\<close>\<close>
  "startsWith s p = (take (length p) s = p)"

fun str_includes :: "string \<Rightarrow> string \<Rightarrow> bool" where
  \<comment> \<open>\<open>s.includes(sub)\<close>: \<open>sub\<close> occurs at some position of \<open>s\<close>\<close>
  "str_includes [] sub = (sub = [])"
| "str_includes (c # cs) sub = (startsWith (c # cs) sub \<or> str_includes cs sub)"

section \<open>JavaScript values\<close>

text \<open>
  The values the gateway handles arrive as JSON, so a value is one of the JSON kinds or
  \<open>undefined\<close>. An object is the list of its own properties in insertion order; a property
  read takes the first entry with that key. A number is the rational its double equals.
  The gateway compares numbers and prints them, it does no arithmetic on them; where it
  reads a number from a string, the rounding to a double is \<open>parseFloat\<close>, a function of
  the platform.
\<close>

datatype jsval =
    Undefined
  | Null
  | JBool bool
  | JNum rat
  | JStr string
  | JArr "jsval list"
  | JObj "(string \<times> jsval) list"

text \<open>
  A template string is kept as its pieces, text and interpolated values, so that no number
  formatting has to be modelled. \<open>Engine\<close> stands for the message text of a built-in error
  (\<open>TypeError\<close>, \<open>SyntaxError\<close>), which the engine chooses.
\<close>

datatype part = Txt string | Val jsval | Engine

datatype exn = TypeError | SyntaxError | Error "part list" | NonError

fun exn_message :: "string \<Rightarrow> exn \<Rightarrow> part list" where
  \<comment> \<open>\<open>error instanceof Error ? error.message : fallback\<close>\<close>
  "exn_message fallback (Error m) = m"
| "exn_message fallback TypeError = [Engine]"
| "exn_message fallback SyntaxError = [Engine]"
| "exn_message fallback NonError = [Txt fallback]"

fun truthy :: "jsval \<Rightarrow> bool" where
  "truthy Undefined = False"
| "truthy Null = False"
| "truthy (JBool b) = b"
| "truthy (JNum n) = (n \<noteq> 0)"
| "truthy (JStr s) = (s \<noteq> [])"
| "truthy (JArr xs) = True"
| "truthy (JObj kvs) = True"

fun getp :: "jsval \<Rightarrow> string \<Rightarrow> exn + jsval" where
  \<comment> \<open>the property read \<open>v.k\<close>, for the property names the gateway uses\<close>
  "getp Undefined k = Inl TypeError"
| "getp Null k = Inl TypeError"
| "getp (JObj kvs) k = Inr (case map_of kvs k of Some v \<Rightarrow> v | None \<Rightarrow> Undefined)"
| "getp (JStr s) k = Inr (if k = ''length'' then JNum (of_nat (length s)) else Undefined)"
| "getp (JArr xs) k = Inr (if k = ''length'' then JNum (of_nat (length xs)) else Undefined)"
| "getp (JBool b) k = Inr Undefined"
| "getp (JNum n) k = Inr Undefined"

fun getp_opt :: "jsval \<Rightarrow> string \<Rightarrow> jsval" where
  \<comment> \<open>optional chaining \<open>v?.k\<close>\<close>
  "getp_opt v k = (case getp v k of Inl e \<Rightarrow> Undefined | Inr x \<Rightarrow> x)"

fun has_key :: "string \<Rightarrow> jsval \<Rightarrow> exn + bool" where
  \<comment> \<open>\<open>k in v\<close> for the names the gateway asks for: a \<open>TypeError\<close> on anything that is not an object\<close>
  "has_key k (JObj kvs) = Inr (k \<in> fst ` set kvs)"
| "has_key k (JArr xs) = Inr (k = ''length'')"
| "has_key k v = Inl TypeError"

definition isArray :: "jsval \<Rightarrow> bool" where
  "isArray v = (case v of JArr xs \<Rightarrow> True | _ \<Rightarrow> False)"

definition is_string :: "jsval \<Rightarrow> bool" where
  \<comment> \<open>\<open>typeof v === 'string'\<close>\<close>
  "is_string v = (case v of JStr s \<Rightarrow> True | _ \<Rightarrow> False)"

definition is_number :: "jsval \<Rightarrow> bool" where
  \<comment> \<open>\<open>typeof v === 'number'\<close>\<close>
  "is_number v = (case v of JNum n \<Rightarrow> True | _ \<Rightarrow> False)"

definition is_object :: "jsval \<Rightarrow> bool" where
  \<comment> \<open>\<open>typeof v === 'object'\<close>, which holds of \<open>null\<close> and of arrays too\<close>
  "is_object v = (case v of JObj kvs \<Rightarrow> True | JArr xs \<Rightarrow> True | Null \<Rightarrow> True | _ \<Rightarrow> False)"

definition nullish :: "jsval \<Rightarrow> bool" where
  \<comment> \<open>\<open>v == null\<close>\<close>
  "nullish v = (v = Null \<or> v = Undefined)"

definition padStart :: "nat \<Rightarrow> char \<Rightarrow> string \<Rightarrow> string" where
  \<comment> \<open>\<open>s.padStart(n, c)\<close> for a one-character filler\<close>
  "padStart n c s = replicate (n - length s) c @ s"

section \<open>Repair of truncated transaction data (\<open>fixTruncatedTransactionData\<close>)\<close>

definition TRANSFER_SELECTOR :: string where
  "TRANSFER_SELECTOR = ''0xa9059cbb''"

definition in_repair_window :: "string \<Rightarrow> bool" where
  "in_repair_window d =
     (startsWith d TRANSFER_SELECTOR \<and> length d \<ge> 74 \<and> length d < 138)"

definition with_data :: "jsval \<Rightarrow> jsval \<Rightarrow> jsval" where
  \<comment> \<open>\<open>{ ...template, data: d }\<close>; a template that has a \<open>data\<close> property is an object\<close>
  "with_data template d =
     (case template of JObj kvs \<Rightarrow> JObj (AList.update ''data'' d kvs) | _ \<Rightarrow> JObj [(''data'', d)])"

text \<open>
  \<open>AgentPayV002Protocol.fixTruncatedTransactionData\<close>. Reading \<open>data\<close> of \<open>null\<close> throws, and
  so does calling \<open>startsWith\<close> on a truthy \<open>data\<close> that is not a string.
\<close>

definition fixTruncatedTransactionData :: "jsval \<Rightarrow> exn + jsval" where
  "fixTruncatedTransactionData template =
     (case getp template ''data'' of
        Inl e \<Rightarrow> Inl e
      | Inr d \<Rightarrow>
          if \<not> truthy d then Inr template
          else (case d of
                  JStr s \<Rightarrow>
                    if startsWith s TRANSFER_SELECTOR \<and> length s \<ge> 74 \<and> length s < 138
                    then Inr (with_data template
                                (JStr (take 74 s @ padStart 64 (CHR ''0'') (drop 74 s))))
                    else Inr template
                | _ \<Rightarrow> Inl TypeError))"

text \<open>\<open>X402Protocol.fixTruncatedTransactionData\<close> returns its argument.\<close>

definition x402_fixTruncatedTransactionData :: "jsval \<Rightarrow> exn + jsval" where
  "x402_fixTruncatedTransactionData template = Inr template"

text \<open>\<open>repair(repair(t))\<close>: the second repair runs on what the first returns.\<close>

definition twice :: "(jsval \<Rightarrow> exn + jsval) \<Rightarrow> jsval \<Rightarrow> exn + jsval" where
  "twice repair t = (case repair t of Inl e \<Rightarrow> Inl e | Inr t' \<Rightarrow> repair t')"

text \<open>The \<open>data\<close> string of a template, when it has one.\<close>

definition data_string :: "jsval \<Rightarrow> string option" where
  "data_string t = (case getp t ''data'' of Inr (JStr s) \<Rightarrow> Some s | _ \<Rightarrow> None)"

section \<open>Transport negotiation (\<open>connectToRemoteServer\<close>, lib/utils.ts)\<close>

datatype TransportStrategy = SseOnly | HttpOnly | SseFirst | HttpFirst

text \<open>\<open>SSE\<close> is \<open>SSEClientTransport\<close>, \<open>HTTP\<close> is \<open>StreamableHTTPClientTransport\<close>.\<close>

datatype transport_kind = SSE | HTTP

text \<open>
  A value thrown by a transport: whether it is an instance of \<open>Error\<close>, and its
  \<open>message\<close> property.
\<close>

record thrown =
  instance_of_Error :: bool
  thrown_message :: string

text \<open>
  What the function does to the outside world, in order: a transport of some kind is
  constructed and started, the Streamable HTTP probe is run with a throwaway client, the
  fallback reason is added to the ledger.
\<close>

datatype event = Start transport_kind | Probe | RecordFallback

text \<open>
  The remote endpoint. \<open>start_result k i\<close> is the outcome of \<open>transport.start()\<close> for the
  \<open>i\<close>-th transport constructed on this logical connection (\<open>None\<close>: it resolves),
  \<open>probe_result i\<close> the outcome of the probe that follows it.
\<close>

record endpoint =
  url_valid :: bool
  start_result :: "transport_kind \<Rightarrow> nat \<Rightarrow> thrown option"
  probe_result :: "nat \<Rightarrow> thrown option"

text \<open>
  The mutable \<open>recursionReasons\<close> set, shared by the recursive calls, together with the
  trace of events so far.
\<close>

record conn_state =
  recursionReasons :: "string set"
  trace :: "event list"

datatype wrapper = AuthRefreshTransportWrapper | CustomHeadersTransportWrapper | Unwrapped

definition REASON_TRANSPORT_FALLBACK :: string where
  "REASON_TRANSPORT_FALLBACK = ''falling-back-to-alternate-transport''"

definition is_start :: "event \<Rightarrow> bool" where
  "is_start e = (case e of Start _ \<Rightarrow> True | _ \<Rightarrow> False)"

definition started :: "conn_state \<Rightarrow> event list" where
  "started st = filter is_start (trace st)"

definition emit :: "event \<Rightarrow> conn_state \<Rightarrow> conn_state" where
  "emit e st = st\<lparr>trace := trace st @ [e]\<rparr>"

definition record_fallback :: "conn_state \<Rightarrow> conn_state" where
  \<comment> \<open>\<open>recursionReasons.add(REASON_TRANSPORT_FALLBACK)\<close>\<close>
  "record_fallback st =
     emit RecordFallback
       (st\<lparr>recursionReasons := insert REASON_TRANSPORT_FALLBACK (recursionReasons st)\<rparr>)"

definition isProtocolLikeError :: "thrown \<Rightarrow> bool" where
  "isProtocolLikeError e =
     (instance_of_Error e \<and>
      (str_includes (thrown_message e) ''405'' \<or> str_includes (thrown_message e) ''Method Not Allowed'' \<or>
       str_includes (thrown_message e) ''404'' \<or> str_includes (thrown_message e) ''Not Found'' \<or>
       str_includes (thrown_message e) ''protocol error''))"

definition invalid_url :: thrown where
  \<comment> \<open>\<open>new URL(serverUrl)\<close> throws a \<open>TypeError\<close>\<close>
  "invalid_url = \<lparr>instance_of_Error = True, thrown_message = ''Invalid URL''\<rparr>"

definition choose_wrapper :: "string option \<Rightarrow> (string \<times> string) list \<Rightarrow> wrapper" where
  "choose_wrapper token customHeaders =
     (let hasToken = (case token of None \<Rightarrow> False | Some t \<Rightarrow> t \<noteq> []);
          hasCustomHeaders = (length customHeaders > 0)
      in if hasToken \<and> hasCustomHeaders then AuthRefreshTransportWrapper
         else if hasToken then AuthRefreshTransportWrapper
         else if hasCustomHeaders then CustomHeadersTransportWrapper
         else Unwrapped)"

definition fallback_rank :: "TransportStrategy \<Rightarrow> conn_state \<Rightarrow> nat" where
  "fallback_rank strategy st =
     (if strategy = SseFirst \<or> strategy = HttpFirst
      then (if REASON_TRANSPORT_FALLBACK \<in> recursionReasons st then 1 else 2)
      else 0)"

definition fellBack :: "conn_state \<Rightarrow> bool" where
  \<comment> \<open>\<open>recursionReasons.has(REASON_TRANSPORT_FALLBACK)\<close>\<close>
  "fellBack st = (REASON_TRANSPORT_FALLBACK \<in> recursionReasons st)"

definition useSSE :: "TransportStrategy \<Rightarrow> conn_state \<Rightarrow> bool" where
  "useSSE strategy st = (strategy = SseOnly \<or> (strategy = SseFirst \<and> \<not> fellBack st))"

definition useHTTP :: "TransportStrategy \<Rightarrow> conn_state \<Rightarrow> bool" where
  "useHTTP strategy st = (strategy = HttpOnly \<or> (strategy = HttpFirst \<and> \<not> fellBack st))"

definition shouldAttemptFallback :: "TransportStrategy \<Rightarrow> conn_state \<Rightarrow> bool" where
  "shouldAttemptFallback strategy st =
     ((strategy = HttpFirst \<or> strategy = SseFirst) \<and> \<not> fellBack st)"

definition chosen_kind :: "TransportStrategy \<Rightarrow> conn_state \<Rightarrow> transport_kind" where
  "chosen_kind strategy st = (if useSSE strategy st then SSE else HTTP)"

text \<open>
  The function returns its result together with the final state: the caller's
  \<open>recursionReasons\<close> set is mutated in place. A recursive call is returned without
  \<open>await\<close>, so its rejection goes to the caller and not to the enclosing \<open>catch\<close>; the
  probe's error, rethrown by the inner \<open>catch\<close>, does reach the outer one, which asks the
  same question again.
\<close>

function connectToRemoteServer ::
  "endpoint \<Rightarrow> string option \<Rightarrow> (string \<times> string) list \<Rightarrow> TransportStrategy \<Rightarrow> conn_state
     \<Rightarrow> (thrown + transport_kind \<times> wrapper) \<times> conn_state" where
  "connectToRemoteServer net token customHeaders strategy st =
     (if \<not> url_valid net then (Inl invalid_url, st)
      else if \<not> useSSE strategy st \<and> \<not> useHTTP strategy st
      then connectToRemoteServer net token customHeaders
             (if strategy = SseFirst then HttpOnly else SseOnly) st
      else
        case start_result net (chosen_kind strategy st) (length (started st)) of
          Some error \<Rightarrow>
            if shouldAttemptFallback strategy st \<and> isProtocolLikeError error
            then connectToRemoteServer net token customHeaders strategy
                   (record_fallback (emit (Start (chosen_kind strategy st)) st))
            else (Inl error, emit (Start (chosen_kind strategy st)) st)
        | None \<Rightarrow>
            if \<not> useSSE strategy st
            then
              case probe_result net (length (started st)) of
                Some probeError \<Rightarrow>
                  if shouldAttemptFallback strategy st \<and> isProtocolLikeError probeError
                  then connectToRemoteServer net token customHeaders SseOnly
                         (record_fallback (emit Probe (emit (Start (chosen_kind strategy st)) st)))
                  else
                    if shouldAttemptFallback strategy st \<and> isProtocolLikeError probeError
                    then connectToRemoteServer net token customHeaders strategy
                           (record_fallback (emit Probe (emit (Start (chosen_kind strategy st)) st)))
                    else (Inl probeError, emit Probe (emit (Start (chosen_kind strategy st)) st))
              | None \<Rightarrow>
                  (Inr (chosen_kind strategy st, choose_wrapper token customHeaders),
                   emit Probe (emit (Start (chosen_kind strategy st)) st))
            else
              (Inr (chosen_kind strategy st, choose_wrapper token customHeaders),
               emit (Start (chosen_kind strategy st)) st))"
  by pat_completeness auto
termination
proof (relation "measure (\<lambda>(net, token, customHeaders, strategy, st). fallback_rank strategy st)",
    goal_cases)
  case 1
  show ?case by simp
next
  case (2 net token customHeaders strategy st)
  then show ?case
    by (cases strategy) (auto simp: fallback_rank_def fellBack_def useSSE_def useHTTP_def)
next
  case (3 net token customHeaders strategy st error)
  then show ?case
    by (auto simp: fallback_rank_def record_fallback_def emit_def fellBack_def
        shouldAttemptFallback_def)
next
  case (4 net token customHeaders strategy st probeError)
  then show ?case
    by (auto simp: fallback_rank_def record_fallback_def emit_def fellBack_def
        shouldAttemptFallback_def)
next
  case (5 net token customHeaders strategy st probeError)
  then show ?case
    by (auto simp: fallback_rank_def record_fallback_def emit_def fellBack_def
        shouldAttemptFallback_def)
qed

declare connectToRemoteServer.simps [simp del]

text \<open>
  The failure of the \<open>i\<close>-th attempt, if it fails: the error of \<open>start()\<close>, or, for the
  Streamable HTTP kind, the error of the probe that follows a successful start.
\<close>

definition attempt_failure :: "endpoint \<Rightarrow> transport_kind \<Rightarrow> nat \<Rightarrow> thrown option" where
  "attempt_failure net k i =
     (case start_result net k i of
        Some e \<Rightarrow> Some e
      | None \<Rightarrow> (if k = HTTP then probe_result net i else None))"

text \<open>Every connection or probe attempt fails with a fallback-eligible error.\<close>

definition always_fails_eligible :: "endpoint \<Rightarrow> bool" where
  "always_fails_eligible net =
     (\<forall>k i. \<exists>e. attempt_failure net k i = Some e \<and> isProtocolLikeError e)"

definition primary :: "TransportStrategy \<Rightarrow> transport_kind" where
  "primary strategy = (if strategy = SseOnly \<or> strategy = SseFirst then SSE else HTTP)"

fun opposite :: "transport_kind \<Rightarrow> transport_kind" where
  "opposite SSE = HTTP"
| "opposite HTTP = SSE"

text \<open>How many times the fallback has been recorded in the ledger.\<close>

definition fallbacks :: "conn_state \<Rightarrow> nat" where
  "fallbacks st = length (filter (\<lambda>e. e = RecordFallback) (trace st))"

text \<open>
  A server that accepts the Streamable HTTP connection but answers the probe with 405, and
  whose SSE endpoint does not exist.
\<close>

definition probe_rejecting_endpoint :: endpoint where
  "probe_rejecting_endpoint =
     \<lparr>url_valid = True,
      start_result = (\<lambda>k i. if k = SSE
         then Some \<lparr>instance_of_Error = True, thrown_message = ''SSE error: Non-200 status code (404)''\<rparr>
         else None),
      probe_result = (\<lambda>i. Some \<lparr>instance_of_Error = True,
         thrown_message = ''Error POSTing to endpoint (HTTP 405): Method Not Allowed''\<rparr>)\<rparr>"

section \<open>Sample transaction templates\<close>

text \<open>
  A USDC transfer on Base mainnet as the x402 descriptor builds it
  (\<open>buildTransactionFromRequirement\<close>), with the given \<open>data\<close>.
\<close>

definition usdc_transfer_template :: "string \<Rightarrow> jsval" where
  "usdc_transfer_template d = JObj
     [(''to'', JStr ''0x833589fCD6eDb6E08f4c7C32D4f71b54bdA02913''),
      (''data'', JStr d),
      (''value'', JStr ''0x0''),
      (''chainId'', JNum 8453),
      (''gasLimit'', JStr ''50000'')]"

text \<open>
  A transfer of 1000000 atomic units (\<open>0xf4240\<close>): once with the leading zeros of the amount
  lost, once complete.
\<close>

definition truncated_data :: string where
  "truncated_data = ''0xa9059cbb''
     @ ''000000000000000000000000616f5ab2095ea299a3c819bf5b381ea342bafbc9'' @ ''f4240''"

definition full_data :: string where
  "full_data = ''0xa9059cbb''
     @ ''000000000000000000000000616f5ab2095ea299a3c819bf5b381ea342bafbc9''
     @ ''00000000000000000000000000000000000000000000000000000000000f4240''"

section \<open>Integers in strings (\<open>BigInt(string)\<close>)\<close>

definition is_space :: "char \<Rightarrow> bool" where
  \<comment> \<open>the white space and line terminator characters of the Latin-1 range\<close>
  "is_space c = (of_char c \<in> {9, 10, 11, 12, 13, 32, 160 :: int})"

definition trim :: "string \<Rightarrow> string" where
  "trim s = rev (dropWhile is_space (rev (dropWhile is_space s)))"

definition digit_val :: "char \<Rightarrow> int option" where
  "digit_val c =
     (let n = (of_char c :: int) in
      if 48 \<le> n \<and> n \<le> 57 then Some (n - 48)
      else if 97 \<le> n \<and> n \<le> 102 then Some (n - 87)
      else if 65 \<le> n \<and> n \<le> 70 then Some (n - 55)
      else None)"

fun digits_value :: "int \<Rightarrow> string \<Rightarrow> int \<Rightarrow> int option" where
  "digits_value b [] acc = Some acc"
| "digits_value b (c # cs) acc =
     (case digit_val c of
        None \<Rightarrow> None
      | Some d \<Rightarrow> if d < b then digits_value b cs (acc * b + d) else None)"

definition parse_digits :: "int \<Rightarrow> string \<Rightarrow> int option" where
  \<comment> \<open>one or more digits of the base\<close>
  "parse_digits b s = (if s = [] then None else digits_value b s 0)"

text \<open>
  \<open>BigInt(str)\<close> on a string, \<open>None\<close> for its \<open>SyntaxError\<close>: white space is trimmed, the
  empty string is zero, a literal is decimal with an optional sign, or hexadecimal, octal
  or binary with its prefix and no sign.
\<close>

definition StringToBigInt :: "string \<Rightarrow> int option" where
  "StringToBigInt str =
     (let s = trim str in
      if s = [] then Some 0
      else if startsWith s ''0x'' \<or> startsWith s ''0X''
        then parse_digits 16 (drop 2 s)
      else if startsWith s ''0o'' \<or> startsWith s ''0O''
        then parse_digits 8 (drop 2 s)
      else if startsWith s ''0b'' \<or> startsWith s ''0B''
        then parse_digits 2 (drop 2 s)
      else if startsWith s ''+'' then parse_digits 10 (drop 1 s)
      else if startsWith s ''-'' then map_option uminus (parse_digits 10 (drop 1 s))
      else parse_digits 10 s)"

section \<open>Decimal strings (\<open>ethers.formatUnits\<close>)\<close>

definition digit_char :: "int \<Rightarrow> char" where
  "digit_char d = char_of (48 + d)"

function decimal_digits :: "int \<Rightarrow> string" where
  "decimal_digits n =
     (if n < 10 then [digit_char n] else decimal_digits (n div 10) @ [digit_char (n mod 10)])"
  by pat_completeness auto
termination
  by (relation "measure nat") auto

declare decimal_digits.simps [simp del]

definition strip_trailing_zeros :: "string \<Rightarrow> string" where
  \<comment> \<open>the trailing zeros of a fraction are dropped, but one digit stays\<close>
  "strip_trailing_zeros s =
     (let t = rev (dropWhile (\<lambda>c. c = CHR ''0'') (rev s)) in if t = [] then ''0'' else t)"

text \<open>
  \<open>ethers.formatUnits(value, 6)\<close> on a value that is not negative: the whole part, a point,
  and the six digits of the fraction without their trailing zeros.
\<close>

definition formatUnits6 :: "int \<Rightarrow> string" where
  "formatUnits6 n =
     decimal_digits (n div 10 ^ 6) @ ''.''
       @ strip_trailing_zeros (padStart 6 (CHR ''0'') (decimal_digits (n mod 10 ^ 6)))"

text \<open>
  The number a decimal string denotes: the digits before the point, plus the digits after
  it over the matching power of ten.
\<close>

definition decimal_value :: "string \<Rightarrow> rat option" where
  "decimal_value s =
     (let w = takeWhile (\<lambda>c. c \<noteq> CHR ''.'') s; f = drop (Suc (length w)) s
      in case (parse_digits 10 w, parse_digits 10 f) of
           (Some a, Some b) \<Rightarrow> Some (of_int a + of_int b / 10 ^ length f)
         | _ \<Rightarrow> None)"

section \<open>The platform and the wallet\<close>

text \<open>
  Library functions the gateway calls and whose code is not part of it: \<open>JSON.parse\<close>
  (\<open>None\<close> for its \<open>SyntaxError\<close>), the conversion of a value that is not a string to a
  string, \<open>ethers.isAddress\<close>, and \<open>Interface.parseTransaction\<close> for the USDC transfer
  signature (the message of the error it throws, if it throws),
  \<open>Interface.encodeFunctionData\<close> for a transfer to a recipient of an amount given as a
  string, and \<open>parseFloat\<close> on a decimal string as \<open>formatUnits\<close> returns it (the double
  nearest to the number the string denotes).
\<close>

record platform =
  json_parse :: "string \<Rightarrow> jsval option"
  js_toString :: "jsval \<Rightarrow> exn + string"
  isAddress :: "jsval \<Rightarrow> bool"
  parseTransaction_error :: "jsval \<Rightarrow> part list option"
  encodeTransfer :: "jsval \<Rightarrow> string \<Rightarrow> exn + string"
  parseFloat :: "string \<Rightarrow> rat"

text \<open>
  The answers of the \<open>WalletService\<close>: the balances as \<open>parseFloat\<close> reads them (USDC, ETH),
  the estimated cost as the string returned and the number \<open>parseFloat\<close> reads from it.
\<close>

record wallet =
  getWalletBalances :: "exn + rat \<times> rat"
  getCurrentChainId :: jsval
  configureForChain :: "jsval \<Rightarrow> exn option"
  estimateTxCost :: "jsval \<Rightarrow> exn + string \<times> rat"
  getTransactionCount :: "exn + jsval"
  getGasPrice :: "exn + jsval"
  signTransaction :: "jsval \<Rightarrow> exn + string"
  getAddress :: string

definition and_then :: "exn + 'a \<Rightarrow> ('a \<Rightarrow> exn + 'b) \<Rightarrow> exn + 'b" where
  "and_then m f = (case m of Inl e \<Rightarrow> Inl e | Inr x \<Rightarrow> f x)"

section \<open>Validation of a transaction template (\<open>AgentPayV002Protocol\<close>)\<close>

definition is_hex_literal :: "string \<Rightarrow> bool" where
  \<comment> \<open>the regular expression \<open>/^0x[0-9a-fA-F]*$/\<close>\<close>
  "is_hex_literal s = (startsWith s ''0x'' \<and> list_all (\<lambda>c. digit_val c \<noteq> None) (drop 2 s))"

definition regex_test_hex :: "platform \<Rightarrow> jsval \<Rightarrow> exn + bool" where
  \<comment> \<open>\<open>RegExp.test\<close> converts its argument to a string first\<close>
  "regex_test_hex pf v =
     (case v of
        JStr s \<Rightarrow> Inr (is_hex_literal s)
      | _ \<Rightarrow> and_then (js_toString pf v) (\<lambda>s. Inr (is_hex_literal s)))"

definition to_lower_char :: "char \<Rightarrow> char" where
  "to_lower_char c =
     (let n = (of_char c :: int) in
      if (65 \<le> n \<and> n \<le> 90) \<or> (192 \<le> n \<and> n \<le> 222 \<and> n \<noteq> 215)
      then char_of (n + 32) else c)"

definition toLowerCase :: "string \<Rightarrow> string" where
  "toLowerCase s = map to_lower_char s"

definition USDC_BASE_LOWER :: string where
  "USDC_BASE_LOWER = ''0x833589fcd6edb6e08f4c7c32d4f71b54bda02913''"

definition usdc_checks :: "platform \<Rightarrow> jsval \<Rightarrow> jsval \<Rightarrow> exn + part list list" where
  \<comment> \<open>the block that validates the length of a USDC transfer; \<open>toLowerCase\<close> exists on strings only\<close>
  "usdc_checks pf to d =
     (if truthy d \<and> truthy to
      then (case to of
              JStr a \<Rightarrow>
                if toLowerCase a = USDC_BASE_LOWER
                then Inr
                  ((if getp_opt d ''length'' \<noteq> JNum 138
                    then [ [Txt ''USDC transfer data has incorrect length: '',
                           Val (getp_opt d ''length''),
                           Txt '' chars (expected 138). This indicates LLM agent truncation of leading zeros.''] ]
                    else [])
                   @ (case parseTransaction_error pf d of
                        None \<Rightarrow> []
                      | Some m \<Rightarrow>
                          [Txt ''USDC transfer data is corrupted and cannot be parsed: '' # m]))
                else Inr []
            | _ \<Rightarrow> Inl TypeError)
      else Inr [])"

definition not_hex :: "platform \<Rightarrow> jsval \<Rightarrow> exn + bool" where
  \<comment> \<open>\<open>!v || !/^0x[0-9a-fA-F]*$/.test(v)\<close>\<close>
  "not_hex pf v = (if \<not> truthy v then Inr True
                   else and_then (regex_test_hex pf v) (\<lambda>b. Inr (\<not> b)))"

text \<open>
  \<open>validateTransactionTemplate\<close> returns the list of error messages, in the order they are
  pushed; \<open>valid\<close> is that the list is empty.
\<close>

definition validateTransactionTemplate :: "platform \<Rightarrow> jsval \<Rightarrow> exn + part list list" where
  "validateTransactionTemplate pf template =
     (if nullish template then Inl TypeError
      else
        let to = getp_opt template ''to'';
            d = getp_opt template ''data'';
            v = getp_opt template ''value'';
            chainId = getp_opt template ''chainId'';
            gasLimit = getp_opt template ''gasLimit''
        in
          and_then (not_hex pf d) (\<lambda>bad_data.
          and_then (usdc_checks pf to d) (\<lambda>usdc_errors.
          and_then (not_hex pf v) (\<lambda>bad_value.
            Inr ((if \<not> truthy to \<or> \<not> isAddress pf to
                  then [ [Txt ''Invalid recipient address''] ] else [])
               @ (if bad_data then [ [Txt ''Invalid transaction data''] ] else [])
               @ usdc_errors
               @ (if bad_value then [ [Txt ''Invalid transaction value''] ] else [])
               @ (if \<not> truthy chainId \<or> \<not> is_number chainId
                  then [ [Txt ''Invalid chain ID''] ] else [])
               @ (if \<not> truthy gasLimit then [ [Txt ''Missing gas limit''] ] else [])
               @ (if chainId \<noteq> JNum 8453
                  then [ [Txt ''Unexpected chain ID: '', Val chainId,
                         Txt '' (expected Base mainnet: 8453)''] ]
                  else []))))))"

section \<open>The payment handler (\<open>PaymentHandler\<close>)\<close>

definition slice_last :: "nat \<Rightarrow> string \<Rightarrow> string" where
  \<comment> \<open>\<open>s.slice(-n)\<close>\<close>
  "slice_last n s = drop (length s - n) s"

text \<open>
  \<open>extractAmountFromTransaction\<close>: every exception inside is caught and gives 0. The amount
  is \<open>parseFloat(ethers.formatUnits(amountWei, 6))\<close>: the decimal string of the amount, read
  as a double.
\<close>

definition extractAmountFromTransaction :: "platform \<Rightarrow> jsval \<Rightarrow> rat" where
  "extractAmountFromTransaction pf transaction =
     (case getp transaction ''data'' of
        Inl e \<Rightarrow> 0
      | Inr d \<Rightarrow>
          if \<not> truthy d then 0
          else (case d of
                  JStr s \<Rightarrow>
                    if startsWith s TRANSFER_SELECTOR
                    then (case StringToBigInt (''0x'' @ slice_last 64 s) of
                            None \<Rightarrow> 0
                          | Some amountWei \<Rightarrow> parseFloat pf (formatUnits6 amountWei))
                    else 0
                | _ \<Rightarrow> 0))"

definition fallbackGasCost :: string where
  "fallbackGasCost = ''0.00005''"

definition fallbackGasCost_number :: rat where
  \<comment> \<open>\<open>parseFloat(fallbackGasCost)\<close>\<close>
  "fallbackGasCost_number = 5 / 100000"

record gas_estimate =
  costEth :: string
  sufficient :: bool
  errorMessage :: "part list option"

definition estimateTransactionGas :: "wallet \<Rightarrow> jsval \<Rightarrow> rat \<Rightarrow> gas_estimate" where
  "estimateTransactionGas w transaction availableEth =
     (if \<not> truthy transaction
      then \<lparr>costEth = fallbackGasCost,
            sufficient = (availableEth > fallbackGasCost_number),
            errorMessage = Some [Txt ''No transaction provided for gas estimation'']\<rparr>
      else
        case and_then (getp transaction ''chainId'') (\<lambda>chainId.
               if truthy chainId \<and> getCurrentChainId w \<noteq> chainId
               then (case configureForChain w chainId of
                       Some e \<Rightarrow> Inl e
                     | None \<Rightarrow> estimateTxCost w transaction)
               else estimateTxCost w transaction) of
          Inr (gasCostEth, gasCostNumber) \<Rightarrow>
            \<lparr>costEth = gasCostEth, sufficient = (availableEth > gasCostNumber),
             errorMessage = None\<rparr>
        | Inl e \<Rightarrow>
            \<lparr>costEth = fallbackGasCost,
             sufficient = (availableEth > fallbackGasCost_number),
             errorMessage = Some (Txt ''Gas estimation failed: '' # exn_message ''Unknown error'' e)\<rparr>)"

text \<open>\<open>AgentPayV002Protocol.signPaymentTransaction\<close> and \<open>createAuthorizationHeaders\<close>.\<close>

definition signPaymentTransaction :: "wallet \<Rightarrow> jsval \<Rightarrow> exn + string \<times> string" where
  "signPaymentTransaction w template =
     and_then (getTransactionCount w) (\<lambda>nonce.
     and_then (getGasPrice w) (\<lambda>gasPrice.
     and_then (getp template ''to'') (\<lambda>to.
     and_then (signTransaction w
         (JObj [(''to'', to),
                (''data'', getp_opt template ''data''),
                (''value'', getp_opt template ''value''),
                (''chainId'', getp_opt template ''chainId''),
                (''gasLimit'', getp_opt template ''gasLimit''),
                (''gasPrice'', gasPrice),
                (''nonce'', nonce)])) (\<lambda>signedTx.
       Inr (signedTx, getAddress w)))))"

definition createAuthorizationHeaders :: "string \<Rightarrow> string \<Rightarrow> (string \<times> string) list" where
  "createAuthorizationHeaders signedTx from =
     [(''x-agentpay-authorization'', signedTx), (''x-agentpay-from'', from)]"

text \<open>
  The \<open>error\<close> string of the result, by the \<open>return\<close> statement that produces it;
  \<open>error_text\<close> is the string itself.
\<close>

datatype auth_error =
    NoParameters
  | MissingAuthorizationParameters
  | InvalidTransactionFormat
  | InvalidTransaction "part list list"
  | InsufficientUSDC rat rat
  | InsufficientETH string rat "part list option"
  | ProcessingFailed exn

fun join_messages :: "part list list \<Rightarrow> part list" where
  \<comment> \<open>\<open>errors.join(', ')\<close>\<close>
  "join_messages [] = []"
| "join_messages [m] = m"
| "join_messages (m # ms) = m @ Txt '', '' # join_messages ms"

fun error_text :: "auth_error \<Rightarrow> part list" where
  "error_text NoParameters = [Txt ''No parameters in message'']"
| "error_text MissingAuthorizationParameters = [Txt ''Missing payment authorization parameters'']"
| "error_text InvalidTransactionFormat = [Txt ''Invalid transaction format: unable to parse JSON'']"
| "error_text (InvalidTransaction errors) = Txt ''Invalid transaction: '' # join_messages errors"
| "error_text (InsufficientUSDC requiredAmount availableUsdc) =
     [Txt ''Insufficient USDC balance. Required: '', Val (JNum requiredAmount),
      Txt '', Available: '', Val (JNum availableUsdc)]"
| "error_text (InsufficientETH cost availableEth note) =
     [Txt ''Insufficient ETH for gas. Required: ~'', Txt cost, Txt '' ETH, Available: '',
      Val (JNum availableEth)]
     @ (case note of None \<Rightarrow> [] | Some m \<Rightarrow> Txt '' ('' # m @ [Txt '')''])"
| "error_text (ProcessingFailed e) = exn_message ''Payment processing failed'' e"

definition hasPaymentAuthorization :: "jsval \<Rightarrow> bool" where
  "hasPaymentAuthorization message =
     (truthy message \<and> is_object message
      \<and> has_key ''params'' message = Inr True
      \<and> truthy (getp_opt message ''params'')
      \<and> (let arguments = getp_opt (getp_opt message ''params'') ''arguments'' in
           truthy arguments
           \<and> (getp_opt arguments ''aa_payment_approved'' = JBool True
                \<or> getp_opt arguments ''aa_payment_approved'' = JStr ''true'')
           \<and> truthy (getp_opt arguments ''aa_payment_transaction'')))"

text \<open>
  The body of the \<open>try\<close> block of \<open>processPaymentAuthorization\<close>. The descriptor is always
  the one registered as \<open>agentpay-v002\<close>, which the constructor registers.
\<close>

definition authorize_transaction ::
  "platform \<Rightarrow> wallet \<Rightarrow> jsval \<Rightarrow> exn + (auth_error + (string \<times> string) list)" where
  "authorize_transaction pf w transaction =
     and_then (fixTruncatedTransactionData transaction) (\<lambda>fixedTransaction.
     and_then (validateTransactionTemplate pf fixedTransaction) (\<lambda>errors.
       if errors \<noteq> [] then Inr (Inl (InvalidTransaction errors))
       else
         and_then (getWalletBalances w) (\<lambda>(availableUsdc, availableEth).
           let requiredAmount = extractAmountFromTransaction pf fixedTransaction in
           if availableUsdc < requiredAmount
           then Inr (Inl (InsufficientUSDC requiredAmount availableUsdc))
           else
             let gasEstimate = estimateTransactionGas w fixedTransaction availableEth in
             if \<not> sufficient gasEstimate
             then Inr (Inl (InsufficientETH (costEth gasEstimate) availableEth
                              (errorMessage gasEstimate)))
             else
               and_then (signPaymentTransaction w fixedTransaction) (\<lambda>(signedTx, from).
                 Inr (Inr (createAuthorizationHeaders signedTx from))))))"

definition parse_if_string :: "platform \<Rightarrow> jsval \<Rightarrow> jsval option" where
  \<comment> \<open>\<open>JSON.parse(transaction)\<close> if the argument is a string; \<open>None\<close> when parsing throws\<close>
  "parse_if_string pf v = (case v of JStr s \<Rightarrow> json_parse pf s | _ \<Rightarrow> Some v)"

definition processPaymentAuthorization ::
  "platform \<Rightarrow> wallet \<Rightarrow> jsval \<Rightarrow> exn + (auth_error + (string \<times> string) list)" where
  "processPaymentAuthorization pf w message =
     and_then (has_key ''params'' message) (\<lambda>has_params.
       if \<not> has_params \<or> \<not> truthy (getp_opt message ''params'')
       then Inr (Inl NoParameters)
       else
         let args = getp_opt (getp_opt message ''params'') ''arguments'' in
         if \<not> truthy args \<or> \<not> truthy (getp_opt args ''aa_payment_approved'')
            \<or> \<not> truthy (getp_opt args ''aa_payment_transaction'')
         then Inr (Inl MissingAuthorizationParameters)
         else
           case parse_if_string pf (getp_opt args ''aa_payment_transaction'') of
             None \<Rightarrow> Inr (Inl InvalidTransactionFormat)
           | Some transaction \<Rightarrow>
               (case authorize_transaction pf w transaction of
                  Inl e \<Rightarrow> Inr (Inl (ProcessingFailed e))
                | Inr r \<Rightarrow> Inr r))"

text \<open>
  The transaction template an approved request carries: the \<open>aa_payment_transaction\<close>
  argument of a request that \<open>hasPaymentAuthorization\<close> accepts, parsed if it is a string.
\<close>

definition approved_transaction :: "platform \<Rightarrow> jsval \<Rightarrow> jsval option" where
  "approved_transaction pf message =
     (if hasPaymentAuthorization message
      then parse_if_string pf
             (getp_opt (getp_opt (getp_opt message ''params'') ''arguments'')
                ''aa_payment_transaction'')
      else None)"

text \<open>The error the validation pushes for a chain other than Base mainnet.\<close>

definition unexpected_chain_message :: "jsval \<Rightarrow> part list" where
  "unexpected_chain_message chainId =
     [Txt ''Unexpected chain ID: '', Val chainId, Txt '' (expected Base mainnet: 8453)'']"

text \<open>
  The amount bytes of an ERC-20 transfer, the last 64 characters of \<open>data\<close>, when \<open>data\<close>
  is a string that begins with the transfer selector.
\<close>

definition amount_hex :: "jsval \<Rightarrow> string option" where
  "amount_hex t =
     (case data_string t of
        Some s \<Rightarrow> if startsWith s TRANSFER_SELECTOR then Some (slice_last 64 s) else None
      | None \<Rightarrow> None)"

text \<open>
  The data does not begin with the transfer selector, or the amount bytes are not a
  hexadecimal literal that \<open>BigInt\<close> accepts.
\<close>

definition amount_not_decoded :: "jsval \<Rightarrow> bool" where
  "amount_not_decoded t =
     (case amount_hex t of None \<Rightarrow> True | Some h \<Rightarrow> StringToBigInt (''0x'' @ h) = None)"

section \<open>Sample requests, platform and wallet\<close>

text \<open>A \<open>tools/call\<close> request replayed with the approval fields.\<close>

definition approval_request :: "jsval \<Rightarrow> jsval" where
  "approval_request t = JObj
     [(''jsonrpc'', JStr ''2.0''),
      (''id'', JNum 7),
      (''method'', JStr ''tools/call''),
      (''params'', JObj
         [(''name'', JStr ''get_weather''),
          (''arguments'', JObj
             [(''city'', JStr ''Paris''),
              (''aa_payment_approved'', JBool True),
              (''aa_payment_transaction'', t),
              (''aa_payment_protocol'', JStr ''x402'')])])]"

text \<open>
  A platform in which an address is any hexadecimal literal of 42 characters, the USDC
  transfer data always parses and every transfer is encoded as the sample data; nothing is
  JSON. Its \<open>parseFloat\<close> returns the number the decimal string denotes, which is what
  \<open>parseFloat\<close> returns wherever that number is a double, as it is for \<open>1.0\<close>.
\<close>

definition sample_platform :: platform where
  "sample_platform =
     \<lparr>json_parse = (\<lambda>s. None),
      js_toString = (\<lambda>v. Inl TypeError),
      isAddress = (\<lambda>v. case v of JStr s \<Rightarrow> length s = 42 \<and> is_hex_literal s | _ \<Rightarrow> False),
      parseTransaction_error = (\<lambda>d. None),
      encodeTransfer = (\<lambda>payTo amount. Inr full_data),
      parseFloat = (\<lambda>s. case decimal_value s of Some r \<Rightarrow> r | None \<Rightarrow> 0)\<rparr>"

text \<open>A wallet on Base mainnet with the given USDC and ETH balances.\<close>

definition sample_wallet :: "rat \<Rightarrow> rat \<Rightarrow> wallet" where
  "sample_wallet usdc eth =
     \<lparr>getWalletBalances = Inr (usdc, eth),
      getCurrentChainId = JNum 8453,
      configureForChain = (\<lambda>c. None),
      estimateTxCost = (\<lambda>t. Inr (''0.00002'', 2 / 100000)),
      getTransactionCount = Inr (JNum 0),
      getGasPrice = Inr (JNum 1000000),
      signTransaction = (\<lambda>t. Inr ''0x02f8b1''),
      getAddress = ''0x616F5Ab2095EA299a3C819Bf5b381eA342BAfbc9''\<rparr>"

text \<open>The transfer on Base Sepolia, as the x402 descriptor builds it for \<open>base-sepolia\<close>.\<close>

definition sepolia_template :: jsval where
  "sepolia_template = JObj
     [(''to'', JStr ''0x036CbD53842c5426634e7929541eC2318f3dCF7e''),
      (''data'', JStr full_data),
      (''value'', JStr ''0x0''),
      (''chainId'', JNum 84532),
      (''gasLimit'', JStr ''50000'')]"

text \<open>
  A template that passes the validation although its data is only the transfer selector:
  the recipient is not the USDC contract, so the length check does not apply.
\<close>

definition bare_selector_template :: jsval where
  "bare_selector_template = JObj
     [(''to'', JStr ''0x616F5Ab2095EA299a3C819Bf5b381eA342BAfbc9''),
      (''data'', JStr ''0xa9059cbb''),
      (''value'', JStr ''0x0''),
      (''chainId'', JNum 8453),
      (''gasLimit'', JStr ''50000'')]"

section \<open>Normalisation of a response (\<open>mcpUtils\<close>)\<close>

fun replace_all :: "string \<Rightarrow> string \<Rightarrow> string \<Rightarrow> string" where
  \<comment> \<open>\<open>s.replace(/pat/g, rep)\<close> for a literal, non-empty pattern\<close>
  "replace_all pat rep [] = []"
| "replace_all pat rep (c # cs) =
     (if pat \<noteq> [] \<and> startsWith (c # cs) pat
      then rep @ replace_all pat rep (drop (length pat - 1) cs)
      else c # replace_all pat rep cs)"

definition python_dict_to_json :: "string \<Rightarrow> string" where
  "python_dict_to_json textContent =
     replace_all ''None'' ''null''
       (replace_all ''False'' ''false''
         (replace_all ''True'' ''true''
           (replace_all [CHR 0x27] [CHR 0x22] textContent)))"

definition index0 :: "jsval \<Rightarrow> jsval" where
  \<comment> \<open>\<open>v[0]\<close> of a value that is an array\<close>
  "index0 v = (case v of JArr (x # xs) \<Rightarrow> x | _ \<Rightarrow> Undefined)"

definition isMCPContentFormat :: "jsval \<Rightarrow> bool" where
  "isMCPContentFormat result =
     (truthy result \<and> is_object result
      \<and> isArray (getp_opt result ''content'')
      \<and> (case getp_opt result ''content'' of JArr xs \<Rightarrow> length xs > 0 | _ \<Rightarrow> False)
      \<and> truthy (index0 (getp_opt result ''content''))
      \<and> is_object (index0 (getp_opt result ''content''))
      \<and> getp_opt (index0 (getp_opt result ''content'')) ''type'' = JStr ''text''
      \<and> is_string (getp_opt (index0 (getp_opt result ''content'')) ''text''))"

text \<open>
  The \<open>debugLog\<close> call after parsing evaluates \<open>Object.keys(parsedContent)\<close>, which throws on
  \<open>null\<close>, and \<open>'error' in parsedContent\<close>, which throws on every other primitive.
\<close>

definition inspect_parsed :: "jsval \<Rightarrow> exn + unit" where
  "inspect_parsed parsedContent =
     (if nullish parsedContent then Inl TypeError
      else and_then (has_key ''error'' parsedContent) (\<lambda>b. Inr ()))"

definition text_of :: "jsval \<Rightarrow> string" where
  "text_of v = (case v of JStr s \<Rightarrow> s | _ \<Rightarrow> [])"

definition extractFromMCPContent :: "platform \<Rightarrow> jsval \<Rightarrow> jsval" where
  "extractFromMCPContent pf result =
     (let text = getp_opt (index0 (getp_opt result ''content'')) ''text'';
          textContent = text_of text
      in case and_then
             (case json_parse pf textContent of
                Some parsedContent \<Rightarrow> Inr parsedContent
              | None \<Rightarrow>
                  (case json_parse pf (python_dict_to_json textContent) of
                     Some parsedContent \<Rightarrow> Inr parsedContent
                   | None \<Rightarrow> Inl SyntaxError))
             (\<lambda>parsedContent.
                and_then (inspect_parsed parsedContent) (\<lambda>u.
                  if truthy (getp_opt (getp_opt parsedContent ''error'') ''data'')
                  then Inr (getp_opt (getp_opt parsedContent ''error'') ''data'')
                  else Inr parsedContent)) of
           Inr v \<Rightarrow> v
         | Inl parseError \<Rightarrow> text)"

definition extractMCPResponseData :: "platform \<Rightarrow> jsval \<Rightarrow> jsval" where
  "extractMCPResponseData pf message =
     (case and_then (has_key ''error'' message) (\<lambda>has_error.
           and_then (has_key ''result'' message) (\<lambda>has_result.
             if has_error \<and> truthy (getp_opt message ''error'')
             then (if truthy (getp_opt (getp_opt message ''error'') ''data'')
                   then Inr (getp_opt (getp_opt message ''error'') ''data'')
                   else Inr (getp_opt message ''error''))
             else if has_result \<and> truthy (getp_opt message ''result'')
             then (if isMCPContentFormat (getp_opt message ''result'')
                   then Inr (extractFromMCPContent pf (getp_opt message ''result''))
                   else Inr (getp_opt message ''result''))
             else Inr Null)) of
        Inr v \<Rightarrow> v
      | Inl error \<Rightarrow> Null)"

section \<open>Protocol descriptors and detection (\<open>ProtocolDetector\<close>)\<close>

text \<open>
  Of a descriptor, detection uses \<open>isPaymentRequired\<close> only, which may throw.
\<close>

record protocol =
  isPaymentRequired :: "jsval \<Rightarrow> exn + bool"

text \<open>
  \<open>X402Protocol.isPaymentRequired\<close>: the \<open>debugLog\<close> call evaluates
  \<open>'accepts' in (response || {})\<close>, which throws on a truthy primitive; the method's own
  \<open>catch\<close> turns that into \<open>false\<close>.
\<close>

definition x402_isPaymentRequired :: "jsval \<Rightarrow> bool" where
  "x402_isPaymentRequired response =
     (case (if truthy response then has_key ''accepts'' response else Inr False) of
        Inl error \<Rightarrow> False
      | Inr has_accepts \<Rightarrow>
          is_object response \<and> response \<noteq> Null
          \<and> \<not> nullish (getp_opt response ''x402Version'')
          \<and> isArray (getp_opt response ''accepts''))"

definition json_parse_value :: "platform \<Rightarrow> jsval \<Rightarrow> exn + jsval" where
  \<comment> \<open>\<open>JSON.parse(v)\<close>: the argument is converted to a string first\<close>
  "json_parse_value pf v =
     and_then (case v of JStr s \<Rightarrow> Inr s | _ \<Rightarrow> js_toString pf v) (\<lambda>s.
       case json_parse pf s of None \<Rightarrow> Inl SyntaxError | Some parsed \<Rightarrow> Inr parsed)"

text \<open>
  The loop of \<open>AgentPayV002Protocol.isPaymentRequired\<close> over \<open>response.content\<close>. Reading
  \<open>item.type\<close> is outside the \<open>try\<close> and throws on a \<open>null\<close> item; what the \<open>try\<close> encloses
  (parsing, and reading the parsed value) is skipped when it throws.
\<close>

fun agentpay_scan_content :: "platform \<Rightarrow> jsval list \<Rightarrow> exn + bool" where
  "agentpay_scan_content pf [] = Inr False"
| "agentpay_scan_content pf (item # items) =
     and_then (getp item ''type'') (\<lambda>ty.
       if ty = JStr ''text'' \<and> truthy (getp_opt item ''text'')
       then (case and_then (json_parse_value pf (getp_opt item ''text'')) (\<lambda>parsed.
                    and_then (getp parsed ''x402Version'') (\<lambda>version.
                      if \<not> nullish version then Inr (Some False)
                      else if getp_opt parsed ''error'' = JStr ''payment_required''
                              \<or> getp_opt parsed ''code'' = JNum 402
                      then Inr (Some True)
                      else Inr None)) of
               Inr (Some b) \<Rightarrow> Inr b
             | Inr None \<Rightarrow> agentpay_scan_content pf items
             | Inl e \<Rightarrow> agentpay_scan_content pf items)
       else agentpay_scan_content pf items)"

definition agentpay_isPaymentRequired :: "platform \<Rightarrow> jsval \<Rightarrow> exn + bool" where
  "agentpay_isPaymentRequired pf response =
     (if \<not> truthy response then Inr False
      else if \<not> nullish (getp_opt response ''x402Version'') then Inr False
      else if getp_opt response ''error'' = JStr ''payment_required'' then Inr True
      else if getp_opt response ''code'' = JNum 402 then Inr True
      else (case getp_opt response ''content'' of
              JArr items \<Rightarrow> agentpay_scan_content pf items
            | _ \<Rightarrow> Inr False))"

definition X402Protocol :: protocol where
  "X402Protocol = \<lparr>isPaymentRequired = (\<lambda>response. Inr (x402_isPaymentRequired response))\<rparr>"

definition AgentPayV002Protocol :: "platform \<Rightarrow> protocol" where
  "AgentPayV002Protocol pf = \<lparr>isPaymentRequired = agentpay_isPaymentRequired pf\<rparr>"

text \<open>
  The detector: the map of registered descriptors, which it shares with the payment
  handler, and the priority list.
\<close>

record detector =
  protocols :: "(string \<times> protocol) list"
  protocolPriority :: "string list"

definition new_detector :: detector where
  "new_detector = \<lparr>protocols = [], protocolPriority = [''x402'', ''agentpay-v002'']\<rparr>"

definition registerProtocol :: "string \<Rightarrow> protocol \<Rightarrow> detector \<Rightarrow> detector" where
  "registerProtocol name p d =
     \<lparr>protocols = AList.update name p (protocols d),
      protocolPriority =
        (if name \<in> set (protocolPriority d) then protocolPriority d
         else protocolPriority d @ [name])\<rparr>"

text \<open>The detector of a \<open>PaymentHandler\<close>, as its constructor leaves it.\<close>

definition payment_handler_detector :: "platform \<Rightarrow> detector" where
  "payment_handler_detector pf =
     registerProtocol ''agentpay-v002'' (AgentPayV002Protocol pf)
       (registerProtocol ''x402'' X402Protocol new_detector)"

fun try_protocols ::
  "(string \<times> protocol) list \<Rightarrow> string list \<Rightarrow> jsval \<Rightarrow> (string \<times> jsval) option" where
  "try_protocols ps [] extractedData = None"
| "try_protocols ps (protocolName # rest) extractedData =
     (case map_of ps protocolName of
        None \<Rightarrow> try_protocols ps rest extractedData
      | Some p \<Rightarrow>
          (case isPaymentRequired p extractedData of
             Inr True \<Rightarrow> Some (protocolName, extractedData)
           | Inr False \<Rightarrow> try_protocols ps rest extractedData
           | Inl error \<Rightarrow> try_protocols ps rest extractedData))"

text \<open>
  \<open>detectProtocol\<close>: the name of the first descriptor that matches, with the extracted
  data, or \<open>None\<close> for \<open>null\<close>. The result type leaves room for an exception that would
  escape the method. The \<open>debugLog\<close> calls evaluate \<open>in\<close> on the message and on the
  extracted data, which throws on primitives, inside the outer \<open>try\<close>.
\<close>

definition detectProtocol ::
  "platform \<Rightarrow> detector \<Rightarrow> jsval \<Rightarrow> exn + (string \<times> jsval) option" where
  "detectProtocol pf d message =
     (case and_then (has_key ''error'' message) (\<lambda>has_error.
           and_then (has_key ''result'' message) (\<lambda>has_result.
             let extractedData = extractMCPResponseData pf message in
             if \<not> truthy extractedData then Inr None
             else
               and_then (has_key ''x402Version'' extractedData) (\<lambda>hasX402Version.
               and_then (has_key ''error'' extractedData) (\<lambda>hasError.
                 Inr (try_protocols (protocols d) (protocolPriority d) extractedData))))) of
        Inr detection \<Rightarrow> Inr detection
      | Inl error \<Rightarrow> Inr None)"

definition isPaymentRequired_message :: "platform \<Rightarrow> detector \<Rightarrow> jsval \<Rightarrow> exn + bool" where
  \<comment> \<open>\<open>PaymentHandler.isPaymentRequired\<close>\<close>
  "isPaymentRequired_message pf d message =
     and_then (detectProtocol pf d message) (\<lambda>detection. Inr (detection \<noteq> None))"

text \<open>The indicators of the two protocols in a payload.\<close>

definition x402_indicators :: "jsval \<Rightarrow> bool" where
  \<comment> \<open>\<open>x402Version\<close> present with an \<open>accepts\<close> array\<close>
  "x402_indicators payload =
     ((case payload of JObj kvs \<Rightarrow> True | _ \<Rightarrow> False)
      \<and> \<not> nullish (getp_opt payload ''x402Version'')
      \<and> isArray (getp_opt payload ''accepts''))"

definition agentpay_indicators :: "jsval \<Rightarrow> bool" where
  \<comment> \<open>\<open>error\<close> is \<open>'payment_required'\<close> or \<open>code\<close> is 402\<close>
  "agentpay_indicators payload =
     (getp_opt payload ''error'' = JStr ''payment_required''
      \<or> getp_opt payload ''code'' = JNum 402)"

text \<open>A JSON-RPC error response with the payload as \<open>error.data\<close>.\<close>

definition error_response :: "jsval \<Rightarrow> jsval" where
  "error_response payload = JObj
     [(''jsonrpc'', JStr ''2.0''),
      (''id'', JNum 7),
      (''error'', JObj
         [(''code'', JNum 402),
          (''message'', JStr ''Payment Required''),
          (''data'', payload)])]"

text \<open>A result in the content format, with one text item.\<close>

definition content_response :: "string \<Rightarrow> jsval" where
  "content_response text = JObj
     [(''jsonrpc'', JStr ''2.0''),
      (''id'', JNum 7),
      (''result'', JObj
         [(''content'', JArr [JObj [(''type'', JStr ''text''), (''text'', JStr text)] ])])]"

text \<open>Every registered descriptor has a predicate that throws on every input.\<close>

definition all_predicates_throw :: "detector \<Rightarrow> bool" where
  "all_predicates_throw d =
     (\<forall>name p v. map_of (protocols d) name = Some p \<longrightarrow> (\<exists>e. isPaymentRequired p v = Inl e))"

text \<open>A detector whose two descriptors throw.\<close>

definition throwing_detector :: detector where
  "throwing_detector =
     registerProtocol ''agentpay-v002'' \<lparr>isPaymentRequired = (\<lambda>response. Inl TypeError)\<rparr>
       (registerProtocol ''x402'' \<lparr>isPaymentRequired = (\<lambda>response. Inl (Error [Txt ''boom'']))\<rparr>
          new_detector)"

text \<open>
  A payload with the indicators of both protocols, in two orders of its keys.
\<close>

definition dual_payload :: jsval where
  "dual_payload = JObj
     [(''x402Version'', JNum 1),
      (''accepts'', JArr []),
      (''error'', JStr ''payment_required''),
      (''code'', JNum 402)]"

definition dual_payload_reordered :: jsval where
  "dual_payload_reordered = JObj
     [(''code'', JNum 402),
      (''error'', JStr ''payment_required''),
      (''accepts'', JArr []),
      (''x402Version'', JNum 1)]"

section \<open>One-time payment headers (\<open>AuthRefreshTransportWrapper\<close>)\<close>

type_synonym headers = "(string \<times> string) list"

definition spread :: "headers \<Rightarrow> headers \<Rightarrow> headers" where
  \<comment> \<open>\<open>{ ...a, ...b }\<close>: the keys of \<open>a\<close> in their order, the values of \<open>b\<close> winning, then the new keys of \<open>b\<close>\<close>
  "spread a b = fold (\<lambda>(k, v). AList.update k v) b a"

text \<open>
  A \<open>Headers\<close> object is the list of its entries under their lower-case names, a name that
  was appended more than once holding the values joined by a comma and a space, as \<open>get\<close>
  returns them. \<open>append\<close> and \<open>set\<close> strip the leading and trailing tabs, spaces and line
  breaks of the value, and throw a \<open>TypeError\<close> unless the name is a token of HTTP and the
  stripped value has no NUL and no line break.
\<close>

definition is_token_char :: "char \<Rightarrow> bool" where
  \<comment> \<open>a letter, a digit or one of \<open>! # $ % & ' * + - . ^ _ ` | ~\<close>\<close>
  "is_token_char c =
     (let n = (of_char c :: int) in
      (48 \<le> n \<and> n \<le> 57) \<or> (65 \<le> n \<and> n \<le> 90) \<or> (97 \<le> n \<and> n \<le> 122)
      \<or> n \<in> {33, 35, 36, 37, 38, 39, 42, 43, 45, 46, 94, 95, 96, 124, 126})"

definition valid_header_name :: "string \<Rightarrow> bool" where
  "valid_header_name name = (name \<noteq> [] \<and> list_all is_token_char name)"

definition is_http_whitespace :: "char \<Rightarrow> bool" where
  "is_http_whitespace c = (of_char c \<in> {9, 10, 13, 32 :: int})"

definition normalize_value :: "string \<Rightarrow> string" where
  "normalize_value v = rev (dropWhile is_http_whitespace (rev (dropWhile is_http_whitespace v)))"

definition valid_header_value :: "string \<Rightarrow> bool" where
  "valid_header_value v = list_all (\<lambda>c. of_char c \<notin> {0, 10, 13 :: int}) v"

definition header_accepted :: "string \<times> string \<Rightarrow> bool" where
  "header_accepted h = (valid_header_name (fst h) \<and> valid_header_value (normalize_value (snd h)))"

definition headers_append :: "string \<Rightarrow> string \<Rightarrow> headers \<Rightarrow> exn + headers" where
  "headers_append name v hs =
     (if \<not> header_accepted (name, v) then Inl TypeError
      else Inr (case map_of hs (toLowerCase name) of
                  None \<Rightarrow> hs @ [(toLowerCase name, normalize_value v)]
                | Some old \<Rightarrow>
                    AList.update (toLowerCase name) (old @ '', '' @ normalize_value v) hs))"

definition headers_set :: "string \<Rightarrow> string \<Rightarrow> headers \<Rightarrow> exn + headers" where
  "headers_set name v hs =
     (if \<not> header_accepted (name, v) then Inl TypeError
      else Inr (AList.update (toLowerCase name) (normalize_value v) hs))"

definition headers_get :: "headers \<Rightarrow> string \<Rightarrow> string option" where
  "headers_get hs name = map_of hs (toLowerCase name)"

fun append_each :: "headers \<Rightarrow> headers \<Rightarrow> exn + headers" where
  "append_each [] hs = Inr hs"
| "append_each ((k, v) # rest) hs = and_then (headers_append k v hs) (append_each rest)"

definition Headers_new :: "headers \<Rightarrow> exn + headers" where
  \<comment> \<open>\<open>new Headers(init)\<close> on the entries of \<open>init\<close>; no entries when \<open>init\<close> is \<open>undefined\<close>\<close>
  "Headers_new init = append_each init []"

fun set_each :: "headers \<Rightarrow> headers \<Rightarrow> exn + headers" where
  \<comment> \<open>\<open>Object.entries(finalHeaders).forEach(([key, value]) => headers.set(key, value))\<close>\<close>
  "set_each [] hs = Inr hs"
| "set_each ((k, v) # rest) hs = and_then (headers_set k v hs) (set_each rest)"

text \<open>
  The identity functions of \<open>@agentauth/core\<close>, which may throw, and the encoding of the
  payload, at the time of the call.
\<close>

record identity =
  deriveAddress :: "string \<Rightarrow> exn + string"
  signPayload :: "nat \<Rightarrow> string \<Rightarrow> exn + string"
  encodePayload :: "nat \<Rightarrow> string"

definition generateFreshAuthHeaders :: "identity \<Rightarrow> nat \<Rightarrow> string \<Rightarrow> exn + headers" where
  "generateFreshAuthHeaders idn now token =
     and_then (deriveAddress idn token) (\<lambda>agentauth_address.
     and_then (signPayload idn now token) (\<lambda>signature.
       Inr [(''X-AgentAuth-Address'', agentauth_address),
            (''X-AgentAuth-Signature'', signature),
            (''X-AgentAuth-Payload'', encodePayload idn now)]))"

text \<open>The \<open>init\<close> argument of \<open>fetch\<close>: its method, its headers and the rest of it.\<close>

record request_init =
  init_method :: "string option"
  init_headers :: headers
  init_body :: string

record auth_wrapper =
  wrapper_token :: string
  baseCustomHeaders :: headers
  pendingPaymentHeaders :: "headers option"

definition setPaymentHeadersForNextRequest :: "headers \<Rightarrow> auth_wrapper \<Rightarrow> auth_wrapper" where
  "setPaymentHeadersForNextRequest hs self = self\<lparr>pendingPaymentHeaders := Some hs\<rparr>"

text \<open>
  The function that \<open>interceptFetch\<close> installs, up to its call of the original \<open>fetch\<close>: the
  state of the wrapper when the function calls the original \<open>fetch\<close> or throws, and either
  the exception or the arguments of that call. An exception of \<open>generateFreshAuthHeaders\<close>
  leaves the slot as it is; the slot is cleared before the \<open>Headers\<close> object is built, so
  an exception of \<open>new Headers\<close> or of \<open>headers.set\<close> finds it cleared. There is no \<open>await\<close>
  before the call of the original \<open>fetch\<close>, so the slot is cleared before the request is
  issued, whatever becomes of the request.
\<close>

definition intercepted_fetch ::
  "identity \<Rightarrow> nat \<Rightarrow> auth_wrapper \<Rightarrow> string \<Rightarrow> request_init option
     \<Rightarrow> auth_wrapper \<times> (exn + string \<times> request_init option)" where
  "intercepted_fetch idn now self input init =
     (case init of
        None \<Rightarrow> (self, Inr (input, init))
      | Some i \<Rightarrow>
          if init_method i = Some ''POST''
          then
            case generateFreshAuthHeaders idn now (wrapper_token self) of
              Inl e \<Rightarrow> (self, Inl e)
            | Inr freshHeaders \<Rightarrow>
                let baseHeaders = spread freshHeaders (baseCustomHeaders self);
                    finalHeaders = (case pendingPaymentHeaders self of
                                      Some pending \<Rightarrow> spread baseHeaders pending
                                    | None \<Rightarrow> baseHeaders);
                    self' = (case pendingPaymentHeaders self of
                               Some pending \<Rightarrow> self\<lparr>pendingPaymentHeaders := None\<rparr>
                             | None \<Rightarrow> self)
                in (self',
                    and_then (Headers_new (init_headers i)) (\<lambda>headers.
                    and_then (set_each finalHeaders headers) (\<lambda>headers.
                      Inr (input, Some (i\<lparr>init_headers := headers\<rparr>)))))
          else (self, Inr (input, init)))"

text \<open>
  The headers of the request that reaches the original \<open>fetch\<close>; none when the function
  throws instead.
\<close>

definition sent_headers :: "auth_wrapper \<times> (exn + string \<times> request_init option) \<Rightarrow> headers" where
  "sent_headers r =
     (case snd r of Inr (input, Some i) \<Rightarrow> init_headers i | _ \<Rightarrow> [])"

text \<open>The headers that the request brings itself, as \<open>new Headers(init.headers)\<close> holds them.\<close>

definition request_headers :: "request_init \<Rightarrow> headers" where
  "request_headers i = (case Headers_new (init_headers i) of Inr h \<Rightarrow> h | Inl e \<Rightarrow> [])"

definition issued :: "auth_wrapper \<times> (exn + string \<times> request_init option) \<Rightarrow> bool" where
  \<comment> \<open>the original \<open>fetch\<close> is called\<close>
  "issued r = (case snd r of Inr call \<Rightarrow> True | Inl e \<Rightarrow> False)"

definition auth_header_names :: "string list" where
  "auth_header_names = [''X-AgentAuth-Address'', ''X-AgentAuth-Signature'', ''X-AgentAuth-Payload'']"

text \<open>
  The names of the staged headers differ from each other, and from the identity and custom
  header names, also when letter case is ignored.
\<close>

definition staged_names_free :: "auth_wrapper \<Rightarrow> headers \<Rightarrow> bool" where
  "staged_names_free self staged =
     (distinct (map (toLowerCase \<circ> fst) staged)
      \<and> (\<forall>k \<in> fst ` set staged.
            toLowerCase k \<notin> toLowerCase ` (set auth_header_names \<union> fst ` set (baseCustomHeaders self))))"

text \<open>
  Every header of a send is one that \<open>Headers\<close> accepts: those of the request, those of the
  identity, the custom ones and the staged ones.
\<close>

definition send_accepted :: "request_init \<Rightarrow> headers \<Rightarrow> auth_wrapper \<Rightarrow> headers \<Rightarrow> bool" where
  "send_accepted i freshHeaders self staged =
     (list_all header_accepted (init_headers i) \<and> list_all header_accepted freshHeaders
      \<and> list_all header_accepted (baseCustomHeaders self) \<and> list_all header_accepted staged)"

text \<open>A wrapper with one custom header, and a POST as the SDK's transport issues it.\<close>

definition sample_identity :: identity where
  "sample_identity =
     \<lparr>deriveAddress = (\<lambda>t. Inr ''0x616F5Ab2095EA299a3C819Bf5b381eA342BAfbc9''),
      signPayload = (\<lambda>now t. Inr ''0xsigned''),
      encodePayload = (\<lambda>now. ''eyJ0aW1lc3RhbXAiOiIifQ=='')\<rparr>"

definition sample_wrapper :: auth_wrapper where
  "sample_wrapper =
     \<lparr>wrapper_token = ''aa-0123'', baseCustomHeaders = [(''X-Trace'', ''abc'')],
      pendingPaymentHeaders = None\<rparr>"

definition sample_post :: request_init where
  "sample_post =
     \<lparr>init_method = Some ''POST'', init_headers = [(''content-type'', ''application/json'')],
      init_body = ''{}''\<rparr>"

text \<open>The headers of an authorization, staged; then two sends.\<close>

definition staged_payment_headers :: headers where
  "staged_payment_headers =
     createAuthorizationHeaders ''0x02f8b1'' ''0x616F5Ab2095EA299a3C819Bf5b381eA342BAfbc9''"

definition first_send :: "auth_wrapper \<times> (exn + string \<times> request_init option)" where
  "first_send =
     intercepted_fetch sample_identity 10
       (setPaymentHeadersForNextRequest staged_payment_headers sample_wrapper)
       ''https://example.com/mcp'' (Some sample_post)"

definition second_send :: "auth_wrapper \<times> (exn + string \<times> request_init option)" where
  "second_send =
     intercepted_fetch sample_identity 20 (fst first_send)
       ''https://example.com/mcp'' (Some sample_post)"

section \<open>The message proxy (\<open>mcpProxy\<close>)\<close>

definition VERSION :: string where
  "VERSION = ''0.1.0''"

definition template_to_string :: "platform \<Rightarrow> jsval \<Rightarrow> exn + string" where
  \<comment> \<open>the text of \<open>${v}\<close> in a template string\<close>
  "template_to_string pf v =
     (case v of
        JStr s \<Rightarrow> Inr s
      | Undefined \<Rightarrow> Inr ''undefined''
      | Null \<Rightarrow> Inr ''null''
      | JBool b \<Rightarrow> Inr (if b then ''true'' else ''false'')
      | _ \<Rightarrow> js_toString pf v)"

definition set_prop :: "jsval \<Rightarrow> string \<Rightarrow> jsval \<Rightarrow> jsval" where
  \<comment> \<open>the assignment \<open>obj.k = v\<close> on an object\<close>
  "set_prop obj k v = (case obj of JObj kvs \<Rightarrow> JObj (AList.update k v kvs) | _ \<Rightarrow> obj)"

text \<open>
  The block for \<open>initialize\<close>: destructuring \<open>null\<close> or \<open>undefined\<close> params throws; an object
  \<open>clientInfo\<close> gets its \<open>name\<close> rewritten in place, so the message changes; on an array the
  new property is not part of the JSON form of the message; on a truthy primitive the
  assignment throws, the module being in strict mode.
\<close>

definition rename_client :: "platform \<Rightarrow> jsval \<Rightarrow> exn + jsval" where
  "rename_client pf message =
     (let params = getp_opt message ''params'' in
      if nullish params then Inl TypeError
      else
        let clientInfo = getp_opt params ''clientInfo'' in
        if \<not> truthy clientInfo then Inr message
        else (case clientInfo of
                JObj kvs \<Rightarrow>
                  and_then (template_to_string pf (getp_opt clientInfo ''name'')) (\<lambda>name.
                    Inr (set_prop message ''params''
                           (set_prop params ''clientInfo''
                              (set_prop clientInfo ''name''
                                 (JStr (name @ '' (via agentauth-mcp '' @ VERSION @ '')''))))))
              | JArr xs \<Rightarrow> Inr message
              | _ \<Rightarrow> Inl TypeError))"

fun renders_empty :: "jsval \<Rightarrow> bool" where
  \<comment> \<open>the values whose text is the empty string\<close>
  "renders_empty (JStr s) = (s = [])"
| "renders_empty (JArr []) = True"
| "renders_empty (JArr [x]) = (x = Null \<or> x = Undefined \<or> renders_empty x)"
| "renders_empty v = False"

definition text_nonempty :: "part list \<Rightarrow> bool" where
  \<comment> \<open>the string is truthy\<close>
  "text_nonempty m =
     (\<exists>p \<in> set m. case p of Txt s \<Rightarrow> s \<noteq> [] | Val v \<Rightarrow> \<not> renders_empty v | Engine \<Rightarrow> True)"

text \<open>
  What a handler does with the transports: it sends a message to one side, it sends the
  structured error response for a failed authorization (with the \<open>id\<close> it answers), it
  stages headers on the remote transport.
\<close>

datatype action =
    SendToServer jsval
  | SendToClient jsval
  | SendErrorToClient jsval auth_error
  | SetPaymentHeaders headers

text \<open>
  The payment handler, present when a wallet service was given. The enrichment of a
  challenge (\<open>processPaymentRequired\<close>) is left open: it is any function that returns a
  message or throws.
\<close>

record payment_handler =
  handler_wallet :: wallet
  processPaymentRequired :: "jsval \<Rightarrow> jsval option \<Rightarrow> exn + jsval"

record proxy_state =
  lastRequest :: "jsval option"

text \<open>
  \<open>transportToClient.onmessage\<close>. \<open>lastRequest\<close> holds the message object itself, so it sees
  the rewriting. \<open>stages\<close> says whether the remote transport has
  \<open>setPaymentHeadersForNextRequest\<close>. The result is the state after the handler and either
  the exception that rejects it or its actions.
\<close>

definition local_onmessage ::
  "platform \<Rightarrow> payment_handler option \<Rightarrow> bool \<Rightarrow> proxy_state \<Rightarrow> jsval
     \<Rightarrow> proxy_state \<times> (exn + action list)" where
  "local_onmessage pf paymentHandler stages st message =
     (case has_key ''method'' message of
        Inl e \<Rightarrow> (st, Inl e)
      | Inr has_method \<Rightarrow>
          (case (if has_method \<and> getp_opt message ''method'' = JStr ''initialize''
                 then rename_client pf message else Inr message) of
             Inl e \<Rightarrow> ((if has_method then st\<lparr>lastRequest := Some message\<rparr> else st), Inl e)
           | Inr message' \<Rightarrow>
               let st' = (if has_method then st\<lparr>lastRequest := Some message'\<rparr> else st) in
               (case paymentHandler of
                  None \<Rightarrow> (st', Inr [SendToServer message'])
                | Some h \<Rightarrow>
                    if hasPaymentAuthorization message'
                    then (case processPaymentAuthorization pf (handler_wallet h) message' of
                            Inl e \<Rightarrow> (st', Inl e)
                          | Inr (Inl err) \<Rightarrow>
                              if text_nonempty (error_text err)
                              then (st', Inr [SendErrorToClient
                                     (case has_key ''id'' message' of
                                        Inr True \<Rightarrow> getp_opt message' ''id''
                                      | _ \<Rightarrow> JStr ''error'') err])
                              else (st', Inr [SendToServer message'])
                          | Inr (Inr hs) \<Rightarrow>
                              (st', Inr ((if stages then [SetPaymentHeaders hs] else [])
                                         @ [SendToServer message'])))
                    else (st', Inr [SendToServer message']))))"

text \<open>
  \<open>transportToServer.onmessage\<close>: an enriched message replaces the original when a payment
  protocol is detected and the enrichment returns; the original is sent otherwise.
\<close>

definition remote_onmessage ::
  "platform \<Rightarrow> payment_handler option \<Rightarrow> proxy_state \<Rightarrow> jsval
     \<Rightarrow> proxy_state \<times> (exn + action list)" where
  "remote_onmessage pf paymentHandler st message =
     (case has_key ''method'' message of
        Inl e \<Rightarrow> (st, Inl e)
      | Inr has_method \<Rightarrow>
          (case paymentHandler of
             None \<Rightarrow> (st, Inr [SendToClient message])
           | Some h \<Rightarrow>
               (case isPaymentRequired_message pf (payment_handler_detector pf) message of
                  Inl e \<Rightarrow> (st, Inl e)
                | Inr True \<Rightarrow>
                    (case processPaymentRequired h message (lastRequest st) of
                       Inr enhancedMessage \<Rightarrow> (st, Inr [SendToClient enhancedMessage])
                     | Inl error \<Rightarrow> (st, Inr [SendToClient message]))
                | Inr False \<Rightarrow> (st, Inr [SendToClient message]))))"

text \<open>The \<open>initialize\<close> request of a client with the given name.\<close>

definition initialize_request :: "string \<Rightarrow> jsval" where
  "initialize_request name = JObj
     [(''jsonrpc'', JStr ''2.0''),
      (''id'', JNum 0),
      (''method'', JStr ''initialize''),
      (''params'', JObj
         [(''protocolVersion'', JStr ''2025-03-26''),
          (''capabilities'', JObj []),
          (''clientInfo'', JObj [(''name'', JStr name), (''version'', JStr ''1.0.0'')])])]"

text \<open>
  An \<open>initialize\<close> request whose \<open>clientInfo\<close> is an object with a string \<open>name\<close>, and the
  message with that name replaced.
\<close>

definition client_name :: "jsval \<Rightarrow> string option" where
  "client_name message =
     (case getp_opt (getp_opt message ''params'') ''clientInfo'' of
        JObj kvs \<Rightarrow> (case map_of kvs ''name'' of Some (JStr n) \<Rightarrow> Some n | _ \<Rightarrow> None)
      | _ \<Rightarrow> None)"

definition with_client_name :: "jsval \<Rightarrow> string \<Rightarrow> jsval" where
  "with_client_name message n =
     set_prop message ''params''
       (set_prop (getp_opt message ''params'') ''clientInfo''
          (set_prop (getp_opt (getp_opt message ''params'') ''clientInfo'') ''name'' (JStr n)))"

text \<open>Messages without payment indicators, and a payment handler to receive them.\<close>

definition plain_request :: jsval where
  "plain_request = JObj
     [(''jsonrpc'', JStr ''2.0''), (''id'', JNum 1), (''method'', JStr ''tools/list'')]"

definition plain_response :: jsval where
  "plain_response = JObj
     [(''jsonrpc'', JStr ''2.0''), (''id'', JNum 1),
      (''result'', JObj [(''tools'', JArr [])])]"

definition sample_handler :: payment_handler where
  "sample_handler =
     \<lparr>handler_wallet = sample_wallet 10 1,
      processPaymentRequired = (\<lambda>message originalRequest. Inr message)\<rparr>"

section \<open>Extraction of an x402 challenge (\<open>X402Protocol.extractPaymentDetails\<close>)\<close>

definition object_prototype_names :: "string list" where
  "object_prototype_names =
     [''constructor'', ''__defineGetter__'', ''__defineSetter__'', ''hasOwnProperty'',
      ''__lookupGetter__'', ''__lookupSetter__'', ''isPrototypeOf'', ''propertyIsEnumerable'',
      ''toString'', ''valueOf'', ''__proto__'', ''toLocaleString'']"

text \<open>
  \<open>getChainConfig\<close> returns the entry of an object literal, here its \<open>chainId\<close>. A name that
  the literal inherits from \<open>Object.prototype\<close> finds a truthy value without a \<open>chainId\<close>.
\<close>

definition getChainConfig :: "string \<Rightarrow> exn + jsval" where
  "getChainConfig networkName =
     (if networkName = ''base'' then Inr (JNum 8453)
      else if networkName = ''base-sepolia'' then Inr (JNum 84532)
      else if networkName \<in> set object_prototype_names then Inr Undefined
      else Inl (Error [Txt ''Unsupported network: '', Txt networkName,
                       Txt ''. AgentAuth MCP Gateway supports: base, base-sepolia'']))"

text \<open>
  \<open>isValidPaymentRequirement\<close>: its \<open>debugLog\<close> call evaluates
  \<open>'scheme' in (requirement || {})\<close>, which throws on a truthy primitive.
\<close>

definition isValidPaymentRequirement :: "platform \<Rightarrow> jsval \<Rightarrow> exn + bool" where
  "isValidPaymentRequirement pf requirement =
     and_then (if truthy requirement then has_key ''scheme'' requirement else Inr False)
       (\<lambda>hasScheme.
          Inr (is_object requirement \<and> requirement \<noteq> Null
               \<and> is_string (getp_opt requirement ''scheme'')
               \<and> is_string (getp_opt requirement ''network'')
               \<and> is_string (getp_opt requirement ''maxAmountRequired'')
               \<and> is_string (getp_opt requirement ''resource'')
               \<and> is_string (getp_opt requirement ''description'')
               \<and> is_string (getp_opt requirement ''payTo'')
               \<and> is_number (getp_opt requirement ''maxTimeoutSeconds'')
               \<and> is_string (getp_opt requirement ''asset'')
               \<and> isAddress pf (getp_opt requirement ''payTo'')
               \<and> isAddress pf (getp_opt requirement ''asset'')
               \<and> (getp_opt requirement ''mimeType'' = Undefined
                    \<or> is_string (getp_opt requirement ''mimeType''))
               \<and> (getp_opt requirement ''outputSchema'' = Undefined
                    \<or> getp_opt requirement ''outputSchema'' = Null
                    \<or> is_object (getp_opt requirement ''outputSchema''))
               \<and> (getp_opt requirement ''extra'' = Undefined
                    \<or> getp_opt requirement ''extra'' = Null
                    \<or> is_object (getp_opt requirement ''extra''))))"

text \<open>
  The check of the amount, made once by \<open>extractPaymentDetails\<close> and once more by
  \<open>buildTransactionFromRequirement\<close>: no decimal point, accepted by \<open>BigInt\<close>, positive.
\<close>

definition check_atomic_amount :: "string \<Rightarrow> exn + int" where
  "check_atomic_amount maxAmount =
     (if str_includes maxAmount ''.''
      then Inl (Error [Txt ''Invalid x402 amount format: '', Txt maxAmount,
                       Txt ''. x402 requires atomic units, not decimals. Server must send atomic units (e.g., \"10000\" for 0.01 USDC, not \"0.01\").''])
      else (case StringToBigInt maxAmount of
              None \<Rightarrow>
                Inl (Error [Txt ''Invalid x402 amount format: '', Txt maxAmount,
                            Txt ''. Must be a valid positive integer in atomic units.''])
            | Some atomicValue \<Rightarrow>
                if atomicValue \<le> 0
                then Inl (Error [Txt ''Invalid x402 amount format: '', Txt maxAmount,
                                 Txt ''. Must be a valid positive integer in atomic units.''])
                else Inr atomicValue))"

text \<open>
  \<open>transferInterface.encodeFunctionData('transfer', [payTo, atomicAmount])\<close> on an amount
  string that has passed the check, with the integer \<open>BigInt\<close> read from it. The interface
  declares the amount as \<open>uint256\<close>: for a value of \<open>2^256\<close> or more the call throws (value
  out of bounds, the rest of the message is the library's); below that the encoding is the
  platform's.
\<close>

definition encodeFunctionData_transfer ::
  "platform \<Rightarrow> jsval \<Rightarrow> string \<Rightarrow> int \<Rightarrow> exn + string" where
  "encodeFunctionData_transfer pf payTo atomicAmount atomicValue =
     (if atomicValue < 0 \<or> 2 ^ 256 \<le> atomicValue
      then Inl (Error [Txt ''value out-of-bounds'', Engine])
      else encodeTransfer pf payTo atomicAmount)"

definition buildTransactionFromRequirement :: "platform \<Rightarrow> jsval \<Rightarrow> jsval \<Rightarrow> exn + jsval" where
  "buildTransactionFromRequirement pf requirement chainId =
     (case (if \<not> isAddress pf (getp_opt requirement ''payTo'')
            then Inl (Error [Txt ''Invalid payTo address: '', Val (getp_opt requirement ''payTo'')])
            else if \<not> isAddress pf (getp_opt requirement ''asset'')
            then Inl (Error [Txt ''Invalid asset address: '', Val (getp_opt requirement ''asset'')])
            else
              and_then (check_atomic_amount (text_of (getp_opt requirement ''maxAmountRequired'')))
                (\<lambda>atomicValue.
              and_then (encodeFunctionData_transfer pf (getp_opt requirement ''payTo'')
                          (text_of (getp_opt requirement ''maxAmountRequired'')) atomicValue)
                (\<lambda>d.
                 Inr (JObj [(''to'', getp_opt requirement ''asset''),
                            (''data'', JStr d),
                            (''value'', JStr ''0x0''),
                            (''chainId'', chainId),
                            (''gasLimit'', JStr ''50000''),
                            (''x402Requirement'', requirement)])))) of
        Inr transaction \<Rightarrow> Inr transaction
      | Inl error \<Rightarrow>
          Inl (Error (Txt ''x402 transaction building failed: '' # exn_message ''Unknown error'' error)))"

text \<open>The \<open>PaymentRequiredResponse\<close> that the extraction returns.\<close>

record payment_details =
  pd_message :: jsval
  pd_amount :: string
  pd_currency :: string
  pd_description :: jsval
  pd_transaction :: jsval

text \<open>
  \<open>extractPaymentDetails\<close>: \<open>None\<close> is \<open>null\<close>, returned for every exception inside. The
  chain id that the method also stores in the descriptor is not represented.
\<close>

definition x402_extractPaymentDetails :: "platform \<Rightarrow> jsval \<Rightarrow> payment_details option" where
  "x402_extractPaymentDetails pf response =
     (case and_then (getp response ''x402Version'') (\<lambda>version.
             if version \<noteq> JNum 1
             then Inl (Error [Txt ''Unsupported x402 version: '', Val version,
                              Txt ''. Supported versions: 1''])
             else (case getp_opt response ''accepts'' of
                     JArr (requirement # others) \<Rightarrow>
                       and_then (isValidPaymentRequirement pf requirement) (\<lambda>valid.
                         if \<not> valid
                         then Inl (Error [Txt ''Invalid x402 payment requirement structure''])
                         else
                           and_then (getChainConfig (text_of (getp_opt requirement ''network'')))
                             (\<lambda>chainId.
                           and_then (check_atomic_amount
                                       (text_of (getp_opt requirement ''maxAmountRequired'')))
                             (\<lambda>atomicValue.
                           and_then (buildTransactionFromRequirement pf requirement chainId)
                             (\<lambda>transaction.
                              Inr \<lparr>pd_message = getp_opt requirement ''description'',
                                   pd_amount = formatUnits6 atomicValue,
                                   pd_currency = ''USDC'',
                                   pd_description = getp_opt requirement ''description'',
                                   pd_transaction = transaction\<rparr>))))
                   | _ \<Rightarrow>
                       Inl (Error [Txt ''Invalid x402 response: accepts array is empty or missing'']))) of
        Inr details \<Rightarrow> Some details
      | Inl error \<Rightarrow> None)"

text \<open>The amount string of the first requirement of a response.\<close>

definition first_requirement :: "jsval \<Rightarrow> jsval" where
  "first_requirement response = index0 (getp_opt response ''accepts'')"

definition is_decimal_digit :: "char \<Rightarrow> bool" where
  "is_decimal_digit c = (48 \<le> (of_char c :: int) \<and> (of_char c :: int) \<le> 57)"

text \<open>A pure integer string: one or more decimal digits and nothing else.\<close>

definition pure_integer_string :: "string \<Rightarrow> bool" where
  "pure_integer_string s = (s \<noteq> [] \<and> list_all is_decimal_digit s)"

text \<open>A challenge as an x402 server sends it, with the given amount string.\<close>

definition x402_challenge :: "string \<Rightarrow> jsval" where
  "x402_challenge amount = JObj
     [(''x402Version'', JNum 1),
      (''error'', JStr ''X-PAYMENT header is required''),
      (''accepts'', JArr [JObj
         [(''scheme'', JStr ''exact''),
          (''network'', JStr ''base''),
          (''maxAmountRequired'', JStr amount),
          (''resource'', JStr ''http://localhost:4021/weather''),
          (''description'', JStr ''''),
          (''mimeType'', JStr ''''),
          (''payTo'', JStr ''0x616F5Ab2095EA299a3C819Bf5b381eA342BAfbc9''),
          (''maxTimeoutSeconds'', JNum 60),
          (''asset'', JStr ''0x833589fCD6eDb6E08f4c7C32D4f71b54bdA02913''),
          (''extra'', JObj [(''name'', JStr ''USD Coin''), (''version'', JStr ''2'')])] ])]"

text \<open>The decimal digits of \<open>2^256\<close>, the least integer that is not a \<open>uint256\<close>.\<close>

definition uint256_overflow :: string where
  "uint256_overflow =
     ''115792089237316195423570985008687907853269984665640564039457584007913129639936''"

section \<open>Properties of the transport negotiation\<close>

lemma started_emit [simp]:
  "started (emit (Start k) st) = started st @ [Start k]"
  "started (emit Probe st) = started st"
  "started (record_fallback st) = started st"
  by (simp_all add: started_def emit_def record_fallback_def is_start_def)

lemma fallbacks_emit [simp]:
  "fallbacks (emit (Start k) st) = fallbacks st"
  "fallbacks (emit Probe st) = fallbacks st"
  "fallbacks (record_fallback st) = Suc (fallbacks st)"
  by (simp_all add: fallbacks_def emit_def record_fallback_def)

lemma fellBack_emit [simp]:
  "fellBack (emit ev st) = fellBack st"
  "fellBack (record_fallback st)"
  by (simp_all add: fellBack_def emit_def record_fallback_def)

lemma sse_only_leg:
  assumes "url_valid net" and "start_result net SSE (length (started st)) = Some e"
  shows "connectToRemoteServer net token hs SseOnly st = (Inl e, emit (Start SSE) st)"
  using assms
  by (simp add: connectToRemoteServer.simps [of net token hs SseOnly st] useSSE_def
      shouldAttemptFallback_def chosen_kind_def)

lemma http_only_leg:
  assumes "url_valid net" and "attempt_failure net HTTP (length (started st)) = Some e"
  shows "\<exists>st'. connectToRemoteServer net token hs HttpOnly st = (Inl e, st')
            \<and> started st' = started st @ [Start HTTP] \<and> fallbacks st' = fallbacks st"
  using assms
  by (simp add: connectToRemoteServer.simps [of net token hs HttpOnly st] useSSE_def useHTTP_def
      shouldAttemptFallback_def chosen_kind_def attempt_failure_def split: option.splits)

lemma second_leg:
  assumes "url_valid net" and "fellBack st"
  shows "connectToRemoteServer net token hs SseFirst st = connectToRemoteServer net token hs HttpOnly st"
    and "connectToRemoteServer net token hs HttpFirst st = connectToRemoteServer net token hs SseOnly st"
  using assms
  by (simp_all add: connectToRemoteServer.simps [of net token hs SseFirst st]
      connectToRemoteServer.simps [of net token hs HttpFirst st] useSSE_def useHTTP_def)

lemma sse_first_leg:
  assumes "url_valid net" and "\<not> fellBack st"
    and "start_result net SSE (length (started st)) = Some e" and "isProtocolLikeError e"
  shows "connectToRemoteServer net token hs SseFirst st
           = connectToRemoteServer net token hs HttpOnly (record_fallback (emit (Start SSE) st))"
  using assms
  by (simp add: connectToRemoteServer.simps [of net token hs SseFirst st] useSSE_def
      shouldAttemptFallback_def chosen_kind_def second_leg)

lemma http_first_leg:
  assumes "url_valid net" and "\<not> fellBack st"
    and "attempt_failure net HTTP (length (started st)) = Some e" and "isProtocolLikeError e"
  shows "\<exists>st1. connectToRemoteServer net token hs HttpFirst st
           = connectToRemoteServer net token hs SseOnly st1
           \<and> started st1 = started st @ [Start HTTP] \<and> fallbacks st1 = Suc (fallbacks st)"
proof (cases "start_result net HTTP (length (started st))")
  case None
  with assms have p: "probe_result net (length (started st)) = Some e"
    by (simp add: attempt_failure_def)
  have "connectToRemoteServer net token hs HttpFirst st
          = connectToRemoteServer net token hs SseOnly
              (record_fallback (emit Probe (emit (Start HTTP) st)))"
    using assms None p
    by (simp add: connectToRemoteServer.simps [of net token hs HttpFirst st] useSSE_def
        useHTTP_def shouldAttemptFallback_def chosen_kind_def)
  then show ?thesis
    by (intro exI [of _ "record_fallback (emit Probe (emit (Start HTTP) st))"]) simp
next
  case (Some e')
  with assms have e': "e' = e" by (simp add: attempt_failure_def)
  have "connectToRemoteServer net token hs HttpFirst st
          = connectToRemoteServer net token hs SseOnly (record_fallback (emit (Start HTTP) st))"
    using assms Some e'
    by (simp add: connectToRemoteServer.simps [of net token hs HttpFirst st] useSSE_def
        useHTTP_def shouldAttemptFallback_def chosen_kind_def second_leg)
  then show ?thesis
    by (intro exI [of _ "record_fallback (emit (Start HTTP) st)"]) simp
qed

text \<open>
  Claim C3. With a fallback-capable strategy (\<open>sse-first\<close> or \<open>http-first\<close>), a fresh
  ledger and an endpoint where every connection or probe attempt fails with a
  fallback-eligible error, \<open>connectToRemoteServer\<close> starts exactly two transports, the
  primary kind and then its opposite, records the fallback exactly once, and rejects with
  the failure of the second attempt.
\<close>

theorem connect_fallback_once:
  assumes valid: "url_valid net"
    and strat: "strategy = SseFirst \<or> strategy = HttpFirst"
    and fresh: "REASON_TRANSPORT_FALLBACK \<notin> rs"
    and fails: "always_fails_eligible net"
  shows "\<exists>e st'.
           connectToRemoteServer net token hs strategy \<lparr>recursionReasons = rs, trace = []\<rparr>
             = (Inl e, st')
         \<and> started st' = [Start (primary strategy), Start (opposite (primary strategy))]
         \<and> fallbacks st' = 1
         \<and> attempt_failure net (opposite (primary strategy)) 1 = Some e
         \<and> isProtocolLikeError e"
proof -
  let ?st = "\<lparr>recursionReasons = rs, trace = []\<rparr>"
  have nf: "\<not> fellBack ?st" using fresh by (simp add: fellBack_def)
  have s0: "started ?st = []" and f0: "fallbacks ?st = 0"
    by (simp_all add: started_def fallbacks_def)
  from strat show ?thesis
  proof
    assume s: "strategy = SseFirst"
    from fails obtain e1 where e1: "attempt_failure net SSE 0 = Some e1" "isProtocolLikeError e1"
      unfolding always_fails_eligible_def by blast
    then have st1: "start_result net SSE (length (started ?st)) = Some e1"
      by (simp add: attempt_failure_def s0 split: option.splits)
    let ?st1 = "record_fallback (emit (Start SSE) ?st)"
    have step1: "connectToRemoteServer net token hs SseFirst ?st
                   = connectToRemoteServer net token hs HttpOnly ?st1"
      by (rule sse_first_leg [OF valid nf st1 e1(2)])
    from fails obtain e2 where e2: "attempt_failure net HTTP 1 = Some e2" "isProtocolLikeError e2"
      unfolding always_fails_eligible_def by blast
    have len1: "length (started ?st1) = 1" by (simp add: s0)
    from http_only_leg [OF valid, of ?st1 e2 token hs] e2(1) len1
    obtain st' where r: "connectToRemoteServer net token hs HttpOnly ?st1 = (Inl e2, st')"
      and tr: "started st' = started ?st1 @ [Start HTTP]" and fb: "fallbacks st' = fallbacks ?st1"
      by auto
    show ?thesis
      using step1 r tr fb e2 s by (simp add: s0 f0 primary_def)
  next
    assume s: "strategy = HttpFirst"
    from fails obtain e1 where e1: "attempt_failure net HTTP 0 = Some e1" "isProtocolLikeError e1"
      unfolding always_fails_eligible_def by blast
    then have a1: "attempt_failure net HTTP (length (started ?st)) = Some e1"
      by (simp add: s0)
    from http_first_leg [OF valid nf a1 e1(2), of token hs]
    obtain st1 where step1: "connectToRemoteServer net token hs HttpFirst ?st
                               = connectToRemoteServer net token hs SseOnly st1"
      and tr1: "started st1 = started ?st @ [Start HTTP]" and fb1: "fallbacks st1 = Suc (fallbacks ?st)"
      by blast
    from fails obtain e2 where e2: "attempt_failure net SSE 1 = Some e2" "isProtocolLikeError e2"
      unfolding always_fails_eligible_def by blast
    then have st2: "start_result net SSE (length (started st1)) = Some e2"
      by (simp add: attempt_failure_def tr1 s0 split: option.splits)
    have r: "connectToRemoteServer net token hs SseOnly st1 = (Inl e2, emit (Start SSE) st1)"
      by (rule sse_only_leg [OF valid st2])
    show ?thesis
      using step1 r tr1 fb1 e2 s by (simp add: s0 f0 primary_def)
  qed
qed

lemma probe_rejecting_endpoint_fails: "always_fails_eligible probe_rejecting_endpoint"
  unfolding always_fails_eligible_def
proof (intro allI)
  fix k i
  show "\<exists>e. attempt_failure probe_rejecting_endpoint k i = Some e \<and> isProtocolLikeError e"
    by (cases k)
       (simp_all add: attempt_failure_def probe_rejecting_endpoint_def isProtocolLikeError_def
          startsWith_def)
qed

theorem connect_fallback_once_witness:
  "\<exists>e st'.
     connectToRemoteServer probe_rejecting_endpoint None [] HttpFirst
         \<lparr>recursionReasons = {}, trace = []\<rparr> = (Inl e, st')
     \<and> started st' = [Start HTTP, Start SSE]
     \<and> fallbacks st' = 1
     \<and> attempt_failure probe_rejecting_endpoint SSE 1 = Some e
     \<and> isProtocolLikeError e"
  using connect_fallback_once [of probe_rejecting_endpoint HttpFirst "{}" None "[]",
      OF _ _ _ probe_rejecting_endpoint_fails]
  by (simp add: probe_rejecting_endpoint_def primary_def)

section \<open>Properties of the repair\<close>

lemma getp_with_data:
  "getp t ''data'' = Inr (JStr s) \<Longrightarrow> getp (with_data t d) ''data'' = Inr d"
  by (cases t) (auto simp: with_data_def update_conv' split: option.splits if_splits)

lemma repaired_length:
  "74 \<le> length s \<Longrightarrow> length s < 138
     \<Longrightarrow> length (take 74 s @ padStart 64 (CHR ''0'') (drop 74 s)) = 138"
  by (simp add: padStart_def)

lemma fix_fixed:
  assumes "fixTruncatedTransactionData t = Inr t'"
  shows "fixTruncatedTransactionData t' = Inr t'"
proof (cases "t' = t")
  case True
  with assms show ?thesis by simp
next
  case False
  with assms obtain s where d: "getp t ''data'' = Inr (JStr s)"
    and w: "74 \<le> length s" "length s < 138"
    and t': "t' = with_data t (JStr (take 74 s @ padStart 64 (CHR ''0'') (drop 74 s)))"
    by (auto simp: fixTruncatedTransactionData_def split: sum.splits if_splits jsval.splits)
  have "getp t' ''data'' = Inr (JStr (take 74 s @ padStart 64 (CHR ''0'') (drop 74 s)))"
    unfolding t' by (rule getp_with_data [OF d])
  then show ?thesis
    using repaired_length [OF w]
    by (simp add: fixTruncatedTransactionData_def del: length_append length_take length_drop)
qed

text \<open>
  Claim C7. Repair is idempotent, for the AgentPay descriptor and for the x402 descriptor
  (whose repair is the identity), also where it throws; and the AgentPay repair changes a
  template only if its \<open>data\<close> is a string in the trigger window: it begins with the
  transfer selector and has at least 74 and fewer than 138 characters. A template whose
  \<open>data\<close> is a string outside the window is returned as it is.
\<close>

theorem repair_idempotent_and_windowed:
  "twice fixTruncatedTransactionData t = fixTruncatedTransactionData t
   \<and> twice x402_fixTruncatedTransactionData t = x402_fixTruncatedTransactionData t
   \<and> (\<forall>t'. fixTruncatedTransactionData t = Inr t' \<and> t' \<noteq> t
         \<longrightarrow> (\<exists>s. data_string t = Some s \<and> in_repair_window s))
   \<and> (\<forall>s. data_string t = Some s \<and> \<not> in_repair_window s
         \<longrightarrow> fixTruncatedTransactionData t = Inr t)
   \<and> x402_fixTruncatedTransactionData t = Inr t"
proof (intro conjI allI impI)
  show "twice fixTruncatedTransactionData t = fixTruncatedTransactionData t"
    by (cases "fixTruncatedTransactionData t") (simp_all add: twice_def fix_fixed)
  show "twice x402_fixTruncatedTransactionData t = x402_fixTruncatedTransactionData t"
    by (simp add: twice_def x402_fixTruncatedTransactionData_def)
  show "x402_fixTruncatedTransactionData t = Inr t"
    by (simp add: x402_fixTruncatedTransactionData_def)
next
  fix t' assume "fixTruncatedTransactionData t = Inr t' \<and> t' \<noteq> t"
  then show "\<exists>s. data_string t = Some s \<and> in_repair_window s"
    by (auto simp: fixTruncatedTransactionData_def data_string_def in_repair_window_def
        split: sum.splits if_splits jsval.splits)
next
  fix s assume "data_string t = Some s \<and> \<not> in_repair_window s"
  then show "fixTruncatedTransactionData t = Inr t"
    by (auto simp: fixTruncatedTransactionData_def data_string_def in_repair_window_def
        split: sum.splits if_splits jsval.splits)
qed

theorem repair_idempotent_and_windowed_witness:
  "fixTruncatedTransactionData (usdc_transfer_template truncated_data)
     = Inr (usdc_transfer_template full_data)
   \<and> twice fixTruncatedTransactionData (usdc_transfer_template truncated_data)
     = Inr (usdc_transfer_template full_data)
   \<and> in_repair_window truncated_data
   \<and> \<not> in_repair_window full_data
   \<and> fixTruncatedTransactionData (usdc_transfer_template full_data)
     = Inr (usdc_transfer_template full_data)"
proof -
  have a: "fixTruncatedTransactionData (usdc_transfer_template truncated_data)
             = Inr (usdc_transfer_template full_data)"
    by code_simp
  have b: "usdc_transfer_template full_data \<noteq> usdc_transfer_template truncated_data"
    by code_simp
  have c: "data_string (usdc_transfer_template truncated_data) = Some truncated_data"
    "data_string (usdc_transfer_template full_data) = Some full_data"
    by (simp_all add: data_string_def usdc_transfer_template_def)
  have d: "\<not> in_repair_window full_data"
    by code_simp
  from repair_idempotent_and_windowed [of "usdc_transfer_template truncated_data"] a b c d
       repair_idempotent_and_windowed [of "usdc_transfer_template full_data"]
  show ?thesis by auto
qed

section \<open>Properties of the payment authorization\<close>

lemma fix_cases:
  assumes "fixTruncatedTransactionData t = Inr t'"
  shows "t' = t \<or> (\<exists>kvs d. t = JObj kvs \<and> t' = JObj (AList.update ''data'' d kvs))"
proof (cases t)
  case (JObj kvs)
  show ?thesis
  proof (cases "map_of kvs ''data''")
    case None
    with assms JObj show ?thesis by (simp add: fixTruncatedTransactionData_def)
  next
    case (Some d)
    with assms JObj show ?thesis
      by (cases d) (auto simp: fixTruncatedTransactionData_def with_data_def split: if_splits)
  qed
qed (use assms in \<open>simp_all add: fixTruncatedTransactionData_def split: if_splits\<close>)

lemma fix_same_fields:
  assumes "fixTruncatedTransactionData t = Inr t'" and "k \<noteq> ''data''"
  shows "getp_opt t' k = getp_opt t k"
  using fix_cases [OF assms(1)] assms(2) by (auto simp: update_conv')

lemma validate_chain:
  assumes v: "validateTransactionTemplate pf t = Inr errors"
    and c: "getp_opt t ''chainId'' \<noteq> JNum 8453"
  shows "unexpected_chain_message (getp_opt t ''chainId'') \<in> set errors"
proof -
  from v have n: "\<not> nullish t"
    by (auto simp: validateTransactionTemplate_def split: if_splits)
  from v n c show ?thesis
    unfolding validateTransactionTemplate_def and_then_def Let_def unexpected_chain_message_def
    by (cases "not_hex pf (getp_opt t ''data'')";
        cases "usdc_checks pf (getp_opt t ''to'') (getp_opt t ''data'')";
        cases "not_hex pf (getp_opt t ''value'')")
       auto
qed

lemma authorize_wrong_chain:
  assumes "getp_opt t ''chainId'' \<noteq> JNum 8453"
  shows "(\<exists>x. authorize_transaction pf w t = Inl x)
       \<or> (\<exists>errors. authorize_transaction pf w t = Inr (Inl (InvalidTransaction errors))
             \<and> unexpected_chain_message (getp_opt t ''chainId'') \<in> set errors)"
proof (cases "fixTruncatedTransactionData t")
  case (Inl e)
  then show ?thesis by (simp add: authorize_transaction_def and_then_def)
next
  case (Inr t')
  note fx = this
  have c: "getp_opt t' ''chainId'' = getp_opt t ''chainId''"
    by (rule fix_same_fields [OF fx]) simp
  show ?thesis
  proof (cases "validateTransactionTemplate pf t'")
    case (Inl e)
    with fx show ?thesis by (simp add: authorize_transaction_def and_then_def)
  next
    case (Inr errors)
    from validate_chain [OF this] assms c
    have m: "unexpected_chain_message (getp_opt t ''chainId'') \<in> set errors" by simp
    then have "errors \<noteq> []" by auto
    with fx Inr m show ?thesis by (simp add: authorize_transaction_def and_then_def)
  qed
qed

lemma approved_process:
  assumes "approved_transaction pf m = Some t"
  shows "processPaymentAuthorization pf w m =
           (case authorize_transaction pf w t of
              Inl e \<Rightarrow> Inr (Inl (ProcessingFailed e))
            | Inr r \<Rightarrow> Inr r)"
proof -
  let ?args = "getp_opt (getp_opt m ''params'') ''arguments''"
  from assms have h: "hasPaymentAuthorization m"
    and p: "parse_if_string pf (getp_opt ?args ''aa_payment_transaction'') = Some t"
    by (auto simp: approved_transaction_def split: if_splits)
  from h have k: "has_key ''params'' m = Inr True" and tp: "truthy (getp_opt m ''params'')"
    and ta: "truthy ?args" and tt: "truthy (getp_opt ?args ''aa_payment_transaction'')"
    and ap: "getp_opt ?args ''aa_payment_approved'' = JBool True
             \<or> getp_opt ?args ''aa_payment_approved'' = JStr ''true''"
    unfolding hasPaymentAuthorization_def Let_def by blast+
  from ap have tap: "truthy (getp_opt ?args ''aa_payment_approved'')" by auto
  show ?thesis
    unfolding processPaymentAuthorization_def Let_def
    by (simp only: k and_then_def sum.case tp ta tt tap p simp_thms if_False option.case)
qed

text \<open>
  Claim C9. \<open>processPaymentAuthorization\<close> has no choice of descriptor: whatever protocol the
  challenge came from, the template is repaired, validated and signed by the
  \<open>agentpay-v002\<close> functions. Their validation pushes the unexpected-chain error for every
  \<open>chainId\<close> other than the number 8453. So an approved request whose template has
  \<open>chainId\<close> 84532 always gets an error, never headers: the list of validation errors,
  which contains that error, or the message of an exception raised before.
\<close>

theorem sepolia_template_always_rejected:
  "(approved_transaction pf m = Some t \<and> getp_opt t ''chainId'' = JNum 84532
      \<longrightarrow> (\<exists>x. processPaymentAuthorization pf w m = Inr (Inl (ProcessingFailed x)))
        \<or> (\<exists>errors. processPaymentAuthorization pf w m = Inr (Inl (InvalidTransaction errors))
              \<and> unexpected_chain_message (JNum 84532) \<in> set errors))
   \<and> (validateTransactionTemplate pf t = Inr errors' \<and> getp_opt t ''chainId'' \<noteq> JNum 8453
      \<longrightarrow> unexpected_chain_message (getp_opt t ''chainId'') \<in> set errors')"
proof (intro conjI impI)
  assume a: "approved_transaction pf m = Some t \<and> getp_opt t ''chainId'' = JNum 84532"
  then have c: "getp_opt t ''chainId'' \<noteq> JNum 8453" by simp
  from authorize_wrong_chain [OF c, of pf w] a
  show "(\<exists>x. processPaymentAuthorization pf w m = Inr (Inl (ProcessingFailed x)))
        \<or> (\<exists>errors. processPaymentAuthorization pf w m = Inr (Inl (InvalidTransaction errors))
              \<and> unexpected_chain_message (JNum 84532) \<in> set errors)"
    by (auto simp: approved_process)
next
  assume "validateTransactionTemplate pf t = Inr errors' \<and> getp_opt t ''chainId'' \<noteq> JNum 8453"
  then show "unexpected_chain_message (getp_opt t ''chainId'') \<in> set errors'"
    using validate_chain by blast
qed

theorem sepolia_template_always_rejected_witness:
  "approved_transaction sample_platform (approval_request sepolia_template) = Some sepolia_template
   \<and> getp_opt sepolia_template ''chainId'' = JNum 84532
   \<and> processPaymentAuthorization sample_platform (sample_wallet 10 1)
         (approval_request sepolia_template)
       = Inr (Inl (InvalidTransaction [unexpected_chain_message (JNum 84532)]))
   \<and> validateTransactionTemplate sample_platform sepolia_template
       = Inr [unexpected_chain_message (JNum 84532)]"
proof -
  have a: "approved_transaction sample_platform (approval_request sepolia_template)
             = Some sepolia_template"
    by code_simp
  have b: "getp_opt sepolia_template ''chainId'' = JNum 84532"
    by code_simp
  have c: "processPaymentAuthorization sample_platform (sample_wallet 10 1)
             (approval_request sepolia_template)
           = Inr (Inl (InvalidTransaction [unexpected_chain_message (JNum 84532)]))"
    by code_simp
  have d: "validateTransactionTemplate sample_platform sepolia_template
             = Inr [unexpected_chain_message (JNum 84532)]"
    by code_simp
  from sepolia_template_always_rejected [of sample_platform "approval_request sepolia_template"
      sepolia_template "sample_wallet 10 1" "[unexpected_chain_message (JNum 84532)]"] a b c d
  show ?thesis by simp
qed

lemma undecoded_zero:
  "amount_not_decoded t \<Longrightarrow> extractAmountFromTransaction pf t = 0"
  unfolding amount_not_decoded_def amount_hex_def data_string_def extractAmountFromTransaction_def
  by (cases "getp t ''data''")
     (auto split: option.splits jsval.splits if_splits)

lemma authorize_never_usdc:
  assumes fx: "fixTruncatedTransactionData t = Inr t'"
    and z: "extractAmountFromTransaction pf t' = 0"
    and nn: "\<forall>u e. getWalletBalances w = Inr (u, e) \<longrightarrow> 0 \<le> u"
  shows "authorize_transaction pf w t \<noteq> Inr (Inl (InsufficientUSDC r a))"
proof (cases "validateTransactionTemplate pf t'")
  case (Inl e)
  with fx show ?thesis by (simp add: authorize_transaction_def and_then_def)
next
  case (Inr errors)
  note v = this
  show ?thesis
  proof (cases "errors = []")
    case False
    with fx v show ?thesis by (simp add: authorize_transaction_def and_then_def)
  next
    case True
    show ?thesis
    proof (cases "getWalletBalances w")
      case (Inl e)
      with fx v True show ?thesis by (simp add: authorize_transaction_def and_then_def)
    next
      case (Inr b)
      obtain u e where b: "b = (u, e)" by (cases b)
      with nn Inr have "\<not> u < 0" by (simp add: not_less)
      with fx v True Inr b z show ?thesis
        by (cases "signPaymentTransaction w t'")
           (auto simp: authorize_transaction_def and_then_def Let_def)
    qed
  qed
qed

lemma unchanged_without_selector:
  assumes "amount_hex t = None" and "fixTruncatedTransactionData t = Inr t'"
  shows "t' = t"
  using assms
  unfolding amount_hex_def data_string_def fixTruncatedTransactionData_def
  by (cases "getp t ''data''") (auto split: option.splits jsval.splits if_splits)

text \<open>
  Claim C10. If the data of a transaction does not begin with the transfer selector
  \<open>0xa9059cbb\<close>, or its amount bytes are not decoded, the required amount recomputed from it
  is 0. The sufficiency check of \<open>processPaymentAuthorization\<close> runs on the repaired
  template, so whenever that one is of this kind and the USDC balance is not negative, the
  result is never the insufficient-USDC error. A template whose data does not begin with
  the selector is not changed by the repair.
\<close>

theorem undecoded_amount_never_insufficient:
  "(amount_not_decoded t \<longrightarrow> extractAmountFromTransaction pf t = 0)
   \<and> (approved_transaction pf m = Some t \<and> fixTruncatedTransactionData t = Inr t'
        \<and> amount_not_decoded t'
        \<and> (\<forall>u e. getWalletBalances w = Inr (u, e) \<longrightarrow> 0 \<le> u)
      \<longrightarrow> (\<forall>r a. processPaymentAuthorization pf w m \<noteq> Inr (Inl (InsufficientUSDC r a))))
   \<and> (amount_hex t = None \<and> fixTruncatedTransactionData t = Inr t' \<longrightarrow> t' = t)"
proof (intro conjI impI allI)
  assume "amount_not_decoded t"
  then show "extractAmountFromTransaction pf t = 0" by (rule undecoded_zero)
next
  fix r a
  assume h: "approved_transaction pf m = Some t \<and> fixTruncatedTransactionData t = Inr t'
        \<and> amount_not_decoded t'
        \<and> (\<forall>u e. getWalletBalances w = Inr (u, e) \<longrightarrow> 0 \<le> u)"
  then have z: "extractAmountFromTransaction pf t' = 0" by (simp add: undecoded_zero)
  from h have "authorize_transaction pf w t \<noteq> Inr (Inl (InsufficientUSDC r a))"
    by (intro authorize_never_usdc [OF _ z]) simp_all
  with h show "processPaymentAuthorization pf w m \<noteq> Inr (Inl (InsufficientUSDC r a))"
    by (cases "authorize_transaction pf w t") (simp_all add: approved_process)
next
  assume "amount_hex t = None \<and> fixTruncatedTransactionData t = Inr t'"
  then show "t' = t" using unchanged_without_selector by blast
qed

theorem undecoded_amount_never_insufficient_witness:
  "amount_not_decoded bare_selector_template
   \<and> extractAmountFromTransaction sample_platform bare_selector_template = 0
   \<and> fixTruncatedTransactionData bare_selector_template = Inr bare_selector_template
   \<and> processPaymentAuthorization sample_platform (sample_wallet 0 1)
         (approval_request bare_selector_template)
       = Inr (Inr [(''x-agentpay-authorization'', ''0x02f8b1''),
                   (''x-agentpay-from'', ''0x616F5Ab2095EA299a3C819Bf5b381eA342BAfbc9'')])
   \<and> (\<forall>r a. processPaymentAuthorization sample_platform (sample_wallet 0 1)
         (approval_request bare_selector_template) \<noteq> Inr (Inl (InsufficientUSDC r a)))"
proof -
  have a: "amount_not_decoded bare_selector_template"
    by code_simp
  have b: "approved_transaction sample_platform (approval_request bare_selector_template)
             = Some bare_selector_template"
    by code_simp
  have c: "fixTruncatedTransactionData bare_selector_template = Inr bare_selector_template"
    by code_simp
  have d: "\<forall>u e. getWalletBalances (sample_wallet 0 1) = Inr (u, e) \<longrightarrow> 0 \<le> u"
    by (simp add: sample_wallet_def)
  have e: "processPaymentAuthorization sample_platform (sample_wallet 0 1)
             (approval_request bare_selector_template)
           = Inr (Inr [(''x-agentpay-authorization'', ''0x02f8b1''),
                       (''x-agentpay-from'', ''0x616F5Ab2095EA299a3C819Bf5b381eA342BAfbc9'')])"
    by code_simp
  from undecoded_amount_never_insufficient [of bare_selector_template sample_platform
      "approval_request bare_selector_template" bare_selector_template "sample_wallet 0 1"]
    a b c d e
  show ?thesis by simp
qed

lemma decoded_amount_is_parsed:
  assumes "amount_hex t = Some h" and "StringToBigInt (''0x'' @ h) = Some amountWei"
  shows "extractAmountFromTransaction pf t = parseFloat pf (formatUnits6 amountWei)"
  using assms
  unfolding amount_hex_def data_string_def extractAmountFromTransaction_def
  by (cases "getp t ''data''")
     (auto simp: startsWith_def TRANSFER_SELECTOR_def split: option.splits jsval.splits if_splits)

lemma authorize_insufficient_usdc:
  assumes "fixTruncatedTransactionData t = Inr t'"
    and "validateTransactionTemplate pf t' = Inr []"
    and "getWalletBalances w = Inr (availableUsdc, availableEth)"
    and "availableUsdc < extractAmountFromTransaction pf t'"
  shows "authorize_transaction pf w t
           = Inr (Inl (InsufficientUSDC (extractAmountFromTransaction pf t') availableUsdc))"
  using assms by (simp add: authorize_transaction_def and_then_def Let_def)

text \<open>
  Claim C4, as amended. When an approved authorization is processed, the repaired template
  is valid and the USDC balance is below the amount recomputed from the transaction (the
  double that \<open>parseFloat\<close> reads from the decimal string of the amount), the result is the
  error string that states this required amount and the available balance; the difference
  of the two is not computed.
\<close>

theorem insufficient_usdc_reports_required_and_available:
  "approved_transaction pf m = Some t \<and> fixTruncatedTransactionData t = Inr t'
     \<and> validateTransactionTemplate pf t' = Inr []
     \<and> getWalletBalances w = Inr (availableUsdc, availableEth)
     \<and> availableUsdc < extractAmountFromTransaction pf t'
   \<longrightarrow> processPaymentAuthorization pf w m
         = Inr (Inl (InsufficientUSDC (extractAmountFromTransaction pf t') availableUsdc))
       \<and> error_text (InsufficientUSDC (extractAmountFromTransaction pf t') availableUsdc)
         = [Txt ''Insufficient USDC balance. Required: '',
            Val (JNum (extractAmountFromTransaction pf t')),
            Txt '', Available: '', Val (JNum availableUsdc)]"
  by (simp add: approved_process authorize_insufficient_usdc)

theorem insufficient_usdc_reports_required_and_available_witness:
  "processPaymentAuthorization sample_platform (sample_wallet (1 / 2) 1)
       (approval_request (usdc_transfer_template full_data))
     = Inr (Inl (InsufficientUSDC 1 (1 / 2)))
   \<and> error_text (InsufficientUSDC 1 (1 / 2))
     = [Txt ''Insufficient USDC balance. Required: '', Val (JNum 1),
        Txt '', Available: '', Val (JNum (1 / 2))]"
proof -
  have a: "approved_transaction sample_platform
             (approval_request (usdc_transfer_template full_data))
           = Some (usdc_transfer_template full_data)"
    by code_simp
  have b: "fixTruncatedTransactionData (usdc_transfer_template full_data)
           = Inr (usdc_transfer_template full_data)"
    by code_simp
  have c: "validateTransactionTemplate sample_platform (usdc_transfer_template full_data) = Inr []"
    by code_simp
  have d: "getWalletBalances (sample_wallet (1 / 2) 1) = Inr (1 / 2, 1)"
    by (simp add: sample_wallet_def)
  have e: "extractAmountFromTransaction sample_platform (usdc_transfer_template full_data) = 1"
    by code_simp
  from insufficient_usdc_reports_required_and_available [of sample_platform
      "approval_request (usdc_transfer_template full_data)" "usdc_transfer_template full_data"
      "usdc_transfer_template full_data" "sample_wallet (1 / 2) 1" "1 / 2" 1] a b c d e
  show ?thesis by simp
qed

text \<open>
  With a balance of 0.25 against a required amount of 1.0 the shortfall is 0.75, and the
  error string interpolates the numbers 1 and 0.25 only.
\<close>

theorem shortfall_not_named_counterexample:
  "processPaymentAuthorization sample_platform (sample_wallet (1 / 4) 1)
       (approval_request (usdc_transfer_template full_data))
     = Inr (Inl (InsufficientUSDC 1 (1 / 4)))
   \<and> error_text (InsufficientUSDC 1 (1 / 4))
     = [Txt ''Insufficient USDC balance. Required: '', Val (JNum 1),
        Txt '', Available: '', Val (JNum (1 / 4))]
   \<and> Val (JNum (1 - 1 / 4)) \<notin> set (error_text (InsufficientUSDC 1 (1 / 4)))"
  by code_simp

section \<open>Properties of the detection\<close>

lemma handler_detector:
  "protocolPriority (payment_handler_detector pf) = [''x402'', ''agentpay-v002'']"
  "map_of (protocols (payment_handler_detector pf)) ''x402'' = Some X402Protocol"
  "map_of (protocols (payment_handler_detector pf)) ''agentpay-v002'' = Some (AgentPayV002Protocol pf)"
  by (simp_all add: payment_handler_detector_def registerProtocol_def new_detector_def)

lemma x402_detects:
  assumes "x402_indicators p"
  shows "x402_isPaymentRequired p"
  using assms
  by (cases p) (auto simp: x402_indicators_def x402_isPaymentRequired_def is_object_def)

lemma agentpay_defers:
  assumes "x402_indicators p"
  shows "agentpay_isPaymentRequired pf p = Inr False"
  using assms
  by (cases p) (auto simp: x402_indicators_def agentpay_isPaymentRequired_def)

lemma detect_on_payload:
  assumes e: "extractMCPResponseData pf message = p" and x: "x402_indicators p"
  shows "detectProtocol pf (payment_handler_detector pf) message = Inr (Some (''x402'', p))"
proof -
  from x obtain kvs where p: "p = JObj kvs"
    by (cases p) (auto simp: x402_indicators_def)
  have obj: "\<exists>a b. has_key ''error'' message = Inr a \<and> has_key ''result'' message = Inr b"
  proof (cases "has_key ''error'' message")
    case (Inl err)
    then have "extractMCPResponseData pf message = Null"
      by (simp add: extractMCPResponseData_def and_then_def)
    with e p show ?thesis by simp
  next
    case (Inr a)
    then show ?thesis by (cases message) auto
  qed
  then obtain a b where k: "has_key ''error'' message = Inr a" "has_key ''result'' message = Inr b"
    by blast
  show ?thesis
    unfolding detectProtocol_def
    using k e p x402_detects [OF x]
    by (simp add: and_then_def Let_def handler_detector X402Protocol_def)
qed

lemma extract_error_data:
  "truthy p \<Longrightarrow> extractMCPResponseData pf (error_response p) = p"
  by (simp add: extractMCPResponseData_def error_response_def and_then_def)

lemma reorder_indicators:
  assumes "distinct (map fst kvs)" "distinct (map fst kvs')" "set kvs = set kvs'"
  shows "x402_indicators (JObj kvs') = x402_indicators (JObj kvs)"
    and "agentpay_indicators (JObj kvs') = agentpay_indicators (JObj kvs)"
proof -
  from assms have "map_of kvs' = map_of kvs"
    by (simp add: map_of_inject_set)
  then show "x402_indicators (JObj kvs') = x402_indicators (JObj kvs)"
    and "agentpay_indicators (JObj kvs') = agentpay_indicators (JObj kvs)"
    by (simp_all add: x402_indicators_def agentpay_indicators_def)
qed

text \<open>
  Claim C5. When the payload that detection extracts from a message carries the x402
  indicators (a non-null \<open>x402Version\<close> and an \<open>accepts\<close> array) and the AgentPay indicators
  (\<open>error\<close> is \<open>'payment_required'\<close> or \<open>code\<close> is 402), the payment handler's detector
  resolves to x402, and the AgentPay predicate itself declines the payload. The order of
  the keys does not matter: a payload with the same properties in another order, sent as
  \<open>error.data\<close>, resolves to x402 as well.
\<close>

theorem both_protocols_resolve_to_x402:
  "(extractMCPResponseData pf message = payload
      \<and> x402_indicators payload \<and> agentpay_indicators payload
    \<longrightarrow> detectProtocol pf (payment_handler_detector pf) message = Inr (Some (''x402'', payload))
        \<and> agentpay_isPaymentRequired pf payload = Inr False)
   \<and> (x402_indicators (JObj kvs) \<and> agentpay_indicators (JObj kvs)
        \<and> distinct (map fst kvs) \<and> distinct (map fst kvs') \<and> set kvs' = set kvs
    \<longrightarrow> detectProtocol pf (payment_handler_detector pf) (error_response (JObj kvs'))
          = Inr (Some (''x402'', JObj kvs')))"
proof (intro conjI impI)
  assume a: "extractMCPResponseData pf message = payload
      \<and> x402_indicators payload \<and> agentpay_indicators payload"
  then show "detectProtocol pf (payment_handler_detector pf) message = Inr (Some (''x402'', payload))"
    by (simp add: detect_on_payload)
  from a show "agentpay_isPaymentRequired pf payload = Inr False"
    by (simp add: agentpay_defers)
next
  assume a: "x402_indicators (JObj kvs) \<and> agentpay_indicators (JObj kvs)
        \<and> distinct (map fst kvs) \<and> distinct (map fst kvs') \<and> set kvs' = set kvs"
  then have "x402_indicators (JObj kvs')"
    using reorder_indicators(1) [of kvs kvs'] by simp
  moreover have "extractMCPResponseData pf (error_response (JObj kvs')) = JObj kvs'"
    by (rule extract_error_data) simp
  ultimately show "detectProtocol pf (payment_handler_detector pf) (error_response (JObj kvs'))
          = Inr (Some (''x402'', JObj kvs'))"
    by (rule detect_on_payload [rotated])
qed

theorem both_protocols_resolve_to_x402_witness:
  "detectProtocol sample_platform (payment_handler_detector sample_platform)
       (error_response dual_payload) = Inr (Some (''x402'', dual_payload))
   \<and> detectProtocol sample_platform (payment_handler_detector sample_platform)
       (error_response dual_payload_reordered) = Inr (Some (''x402'', dual_payload_reordered))
   \<and> agentpay_isPaymentRequired sample_platform dual_payload = Inr False"
proof -
  have a: "extractMCPResponseData sample_platform (error_response dual_payload) = dual_payload"
    by code_simp
  have b: "x402_indicators dual_payload" "agentpay_indicators dual_payload"
    by code_simp+
  have c: "distinct (map fst [(''x402Version'', JNum 1), (''accepts'', JArr []),
             (''error'', JStr ''payment_required''), (''code'', JNum 402)])"
    "distinct (map fst [(''code'', JNum 402), (''error'', JStr ''payment_required''),
             (''accepts'', JArr []), (''x402Version'', JNum 1)])"
    by simp_all
  have d: "set [(''code'', JNum 402), (''error'', JStr ''payment_required''),
             (''accepts'', JArr []), (''x402Version'', JNum 1)]
         = set [(''x402Version'', JNum 1), (''accepts'', JArr []),
             (''error'', JStr ''payment_required''), (''code'', JNum 402)]"
    by auto
  from both_protocols_resolve_to_x402 [of sample_platform "error_response dual_payload" dual_payload
      "[(''x402Version'', JNum 1), (''accepts'', JArr []),
        (''error'', JStr ''payment_required''), (''code'', JNum 402)]"
      "[(''code'', JNum 402), (''error'', JStr ''payment_required''),
        (''accepts'', JArr []), (''x402Version'', JNum 1)]"] a b c d
  show ?thesis by (simp add: dual_payload_def dual_payload_reordered_def)
qed

lemma detect_returns: "\<exists>r. detectProtocol pf d message = Inr r"
  unfolding detectProtocol_def
  by (cases "and_then (has_key ''error'' message) (\<lambda>has_error.
           and_then (has_key ''result'' message) (\<lambda>has_result.
             let extractedData = extractMCPResponseData pf message in
             if \<not> truthy extractedData then Inr None
             else
               and_then (has_key ''x402Version'' extractedData) (\<lambda>hasX402Version.
               and_then (has_key ''error'' extractedData) (\<lambda>hasError.
                 Inr (try_protocols (protocols d) (protocolPriority d) extractedData)))))")
     simp_all

lemma try_protocols_throwing:
  assumes "all_predicates_throw \<lparr>protocols = ps, protocolPriority = pr\<rparr>"
  shows "try_protocols ps names v = None"
proof (induction names)
  case Nil
  show ?case by simp
next
  case (Cons n names)
  show ?case
  proof (cases "map_of ps n")
    case None
    with Cons show ?thesis by simp
  next
    case (Some p)
    with assms obtain e where "isPaymentRequired p v = Inl e"
      unfolding all_predicates_throw_def by fastforce
    with Some Cons show ?thesis by simp
  qed
qed

lemma detect_throwing:
  assumes "all_predicates_throw d"
  shows "detectProtocol pf d message = Inr None"
proof -
  have "all_predicates_throw \<lparr>protocols = protocols d, protocolPriority = protocolPriority d\<rparr>"
    using assms by (simp add: all_predicates_throw_def)
  then have t: "\<And>v. try_protocols (protocols d) (protocolPriority d) v = None"
    by (rule try_protocols_throwing)
  show ?thesis
    unfolding detectProtocol_def Let_def and_then_def
    by (simp add: t split: sum.splits)
qed

lemma extract_unparsable:
  assumes "json_parse pf text = None" "json_parse pf (python_dict_to_json text) = None"
  shows "extractMCPResponseData pf (content_response text) = JStr text"
  using assms
  by (simp add: extractMCPResponseData_def content_response_def and_then_def isMCPContentFormat_def
      is_object_def isArray_def index0_def is_string_def extractFromMCPContent_def text_of_def)

lemma detect_unparsable:
  assumes "json_parse pf text = None" "json_parse pf (python_dict_to_json text) = None"
  shows "detectProtocol pf d (content_response text) = Inr None"
proof -
  have k: "has_key ''error'' (content_response text) = Inr False"
    "has_key ''result'' (content_response text) = Inr True"
    by (simp_all add: content_response_def)
  show ?thesis
    unfolding detectProtocol_def
    by (simp add: k and_then_def Let_def extract_unparsable [OF assms])
qed

text \<open>
  Claim C8. \<open>detectProtocol\<close> returns on every message, for every platform and every
  registry of descriptors: its result is a detection or \<open>null\<close>, never an exception. On a
  \<open>null\<close> or \<open>undefined\<close> message, on embedded text that neither parse accepts, and when
  every registered predicate throws, the result is \<open>null\<close>.
\<close>

theorem detection_never_raises:
  "(\<exists>r. detectProtocol pf d message = Inr r)
   \<and> detectProtocol pf d Null = Inr None
   \<and> detectProtocol pf d Undefined = Inr None
   \<and> (json_parse pf text = None \<and> json_parse pf (python_dict_to_json text) = None
      \<longrightarrow> detectProtocol pf d (content_response text) = Inr None)
   \<and> (all_predicates_throw d \<longrightarrow> detectProtocol pf d message = Inr None)"
proof (intro conjI impI)
  show "\<exists>r. detectProtocol pf d message = Inr r" by (rule detect_returns)
  show "detectProtocol pf d Null = Inr None"
    by (simp add: detectProtocol_def and_then_def)
  show "detectProtocol pf d Undefined = Inr None"
    by (simp add: detectProtocol_def and_then_def)
next
  assume "json_parse pf text = None \<and> json_parse pf (python_dict_to_json text) = None"
  then show "detectProtocol pf d (content_response text) = Inr None"
    by (simp add: detect_unparsable)
next
  assume "all_predicates_throw d"
  then show "detectProtocol pf d message = Inr None" by (rule detect_throwing)
qed

lemma throwing_detector_throws: "all_predicates_throw throwing_detector"
  unfolding all_predicates_throw_def throwing_detector_def registerProtocol_def new_detector_def
  by (auto simp: update_conv' split: if_splits)

theorem detection_never_raises_witness:
  "detectProtocol sample_platform throwing_detector (error_response dual_payload) = Inr None
   \<and> detectProtocol sample_platform (payment_handler_detector sample_platform)
        (content_response ''{not json'') = Inr None"
proof -
  have a: "json_parse sample_platform ''{not json'' = None"
    "json_parse sample_platform (python_dict_to_json ''{not json'') = None"
    by (simp_all add: sample_platform_def)
  from detection_never_raises [of sample_platform throwing_detector "error_response dual_payload"
      "''{not json''"]
    detection_never_raises [of sample_platform "payment_handler_detector sample_platform"
      "error_response dual_payload" "''{not json''"]
    a throwing_detector_throws
  show ?thesis by simp
qed

section \<open>Properties of the one-time headers\<close>

lemma map_of_fold_update:
  "map_of (fold (\<lambda>(k, v). AList.update (g k) (h v)) xs init)
     = map_of init ++ map_of (rev (map (\<lambda>(k, v). (g k, h v)) xs))"
proof (induction xs arbitrary: init)
  case Nil
  show ?case by simp
next
  case (Cons x xs)
  obtain k v where x: "x = (k, v)" by (cases x)
  show ?case
    by (simp add: x Cons update_conv')
       (simp add: map_add_def fun_eq_iff split: option.splits)
qed

lemma map_of_spread: "map_of (spread a b) = map_of a ++ map_of (rev b)"
  using map_of_fold_update [of "\<lambda>k. k" "\<lambda>v. v" b a] by (simp add: spread_def)

lemma keys_spread: "fst ` set (spread a b) = fst ` set a \<union> fst ` set b"
proof -
  have "dom (map_of (spread a b)) = dom (map_of a) \<union> dom (map_of (rev b))"
    by (simp add: map_of_spread Un_commute)
  then show ?thesis by (simp add: dom_map_of_conv_image_fst)
qed

lemma set_update_subset: "set (AList.update k v xs) \<subseteq> insert (k, v) (set xs)"
  by (induction xs) auto

lemma set_spread_subset: "set (spread a b) \<subseteq> set a \<union> set b"
  unfolding spread_def
proof (induction b arbitrary: a)
  case Nil
  show ?case by simp
next
  case (Cons x xs)
  obtain k v where x: "x = (k, v)" by (cases x)
  from Cons [of "AList.update k v a"] set_update_subset [of k v a]
  show ?case by (auto simp: x)
qed

lemma spread_accepted:
  assumes "list_all header_accepted a" and "list_all header_accepted b"
  shows "list_all header_accepted (spread a b)"
  using assms set_spread_subset [of a b] by (auto simp: list_all_iff)

lemma set_each_result:
  "set_each fs hs = Inr hs' \<Longrightarrow>
     hs' = fold (\<lambda>(k, v). AList.update (toLowerCase k) (normalize_value v)) fs hs"
proof (induction fs arbitrary: hs)
  case Nil
  then show ?case by simp
next
  case (Cons x xs)
  obtain k v where x: "x = (k, v)" by (cases x)
  from Cons.prems show ?case
    by (auto simp: x and_then_def headers_set_def intro: Cons.IH split: if_splits)
qed

lemma set_each_accepted:
  "list_all header_accepted fs \<Longrightarrow>
     set_each fs hs = Inr (fold (\<lambda>(k, v). AList.update (toLowerCase k) (normalize_value v)) fs hs)"
proof (induction fs arbitrary: hs)
  case Nil
  show ?case by simp
next
  case (Cons x xs)
  obtain k v where x: "x = (k, v)" by (cases x)
  from Cons.prems show ?case
    by (simp add: x and_then_def headers_set_def Cons.IH)
qed

lemma append_each_accepted:
  "list_all header_accepted fs \<Longrightarrow> \<exists>h. append_each fs hs = Inr h"
proof (induction fs arbitrary: hs)
  case Nil
  show ?case by simp
next
  case (Cons x xs)
  obtain k v where x: "x = (k, v)" by (cases x)
  from Cons.prems show ?case
    by (simp add: x and_then_def headers_append_def Cons.IH)
qed

lemma spread_fresh_keys:
  assumes "distinct (map fst b)" and "fst ` set b \<inter> fst ` set a = {}"
  shows "spread a b = a @ b"
  using assms unfolding spread_def
proof (induction b arbitrary: a)
  case Nil
  show ?case by simp
next
  case (Cons x xs)
  obtain k v where x: "x = (k, v)" by (cases x)
  from Cons.prems x have k: "k \<notin> fst ` set a" by auto
  have u: "AList.update k v a = a @ [(k, v)]"
    using k by (induction a) auto
  have "fold (\<lambda>(k, v). AList.update k v) xs (a @ [(k, v)]) = (a @ [(k, v)]) @ xs"
    using Cons.prems x by (intro Cons.IH) auto
  then show ?case by (simp add: x u)
qed

lemma lowered_lookup:
  assumes "distinct (map (toLowerCase \<circ> fst) staged)" and "(k, v) \<in> set staged"
  shows "map_of (rev (map (\<lambda>(k, v). (toLowerCase k, h v)) staged)) (toLowerCase k) = Some (h v)"
proof -
  have m: "map fst (map (\<lambda>(k, v). (toLowerCase k, h v)) staged) = map (toLowerCase \<circ> fst) staged"
    by (induction staged) auto
  have d: "distinct (map fst (rev (map (\<lambda>(k, v). (toLowerCase k, h v)) staged)))"
    unfolding rev_map [symmetric] distinct_rev m by (rule assms(1))
  have "(toLowerCase k, h v) \<in> set (rev (map (\<lambda>(k, v). (toLowerCase k, h v)) staged))"
    using assms(2) by force
  with d show ?thesis by (rule map_of_is_SomeI)
qed

lemma lowered_absent:
  assumes "toLowerCase k \<notin> toLowerCase ` fst ` set xs"
  shows "map_of (rev (map (\<lambda>(k, v). (toLowerCase k, h v)) xs)) (toLowerCase k) = None"
proof -
  have "toLowerCase k \<notin> fst ` set (rev (map (\<lambda>(k, v). (toLowerCase k, h v)) xs))"
    using assms by force
  then show ?thesis by (simp add: map_of_eq_None_iff)
qed

lemma fresh_names:
  assumes "generateFreshAuthHeaders idn now tok = Inr freshHeaders"
  shows "fst ` set freshHeaders = set auth_header_names"
  using assms
  by (auto simp: generateFreshAuthHeaders_def and_then_def auth_header_names_def
           split: sum.splits)

lemma first_send_result:
  assumes post: "init_method i = Some ''POST''"
    and fresh: "generateFreshAuthHeaders idn now (wrapper_token self) = Inr freshHeaders"
  shows "intercepted_fetch idn now (setPaymentHeadersForNextRequest staged self) input (Some i)
          = (self\<lparr>pendingPaymentHeaders := None\<rparr>,
             and_then (Headers_new (init_headers i)) (\<lambda>headers.
             and_then (set_each (spread (spread freshHeaders (baseCustomHeaders self)) staged)
                         headers) (\<lambda>headers.
               Inr (input, Some (i\<lparr>init_headers := headers\<rparr>)))))"
  using post fresh
  by (simp add: intercepted_fetch_def setPaymentHeadersForNextRequest_def Let_def)

lemma plain_send_result:
  assumes post: "init_method i = Some ''POST''"
  shows "intercepted_fetch idn now (self\<lparr>pendingPaymentHeaders := None\<rparr>) input (Some i)
          = (self\<lparr>pendingPaymentHeaders := None\<rparr>,
             and_then (generateFreshAuthHeaders idn now (wrapper_token self)) (\<lambda>freshHeaders.
             and_then (Headers_new (init_headers i)) (\<lambda>headers.
             and_then (set_each (spread freshHeaders (baseCustomHeaders self)) headers) (\<lambda>headers.
               Inr (input, Some (i\<lparr>init_headers := headers\<rparr>))))))"
  using post
  by (simp add: intercepted_fetch_def Let_def and_then_def split: sum.splits)

lemma staged_on_first:
  assumes post: "init_method i = Some ''POST''"
    and fresh: "generateFreshAuthHeaders idn now (wrapper_token self) = Inr freshHeaders"
    and acc: "send_accepted i freshHeaders self staged"
    and free: "staged_names_free self staged"
  shows "issued (intercepted_fetch idn now (setPaymentHeadersForNextRequest staged self)
                   input (Some i))"
    and "(k, v) \<in> set staged \<Longrightarrow>
           headers_get (sent_headers (intercepted_fetch idn now
               (setPaymentHeadersForNextRequest staged self) input (Some i))) k
             = Some (normalize_value v)"
proof -
  let ?B = "spread freshHeaders (baseCustomHeaders self)"
  let ?set = "\<lambda>(k, v). AList.update (toLowerCase k) (normalize_value v)"
  from free have dl: "distinct (map (toLowerCase \<circ> fst) staged)"
    and nc: "\<And>k. k \<in> fst ` set staged \<Longrightarrow>
               toLowerCase k \<notin> toLowerCase ` (set auth_header_names \<union> fst ` set (baseCustomHeaders self))"
    by (auto simp: staged_names_free_def)
  from dl have ds: "distinct (map fst staged)"
    by (simp add: distinct_map comp_def inj_on_def)
  have names: "fst ` set ?B = set auth_header_names \<union> fst ` set (baseCustomHeaders self)"
    by (simp add: keys_spread fresh_names [OF fresh])
  have disj: "fst ` set staged \<inter> fst ` set ?B = {}"
    using nc unfolding names by auto
  have fin: "spread ?B staged = ?B @ staged"
    by (rule spread_fresh_keys [OF ds disj])
  from acc have ai: "list_all header_accepted (init_headers i)"
    and af: "list_all header_accepted (spread ?B staged)"
    by (simp_all add: send_accepted_def spread_accepted)
  from append_each_accepted [OF ai] obtain h0 where h0: "Headers_new (init_headers i) = Inr h0"
    unfolding Headers_new_def by blast
  note r = first_send_result [OF post fresh, of staged input, unfolded h0
      set_each_accepted [OF af]]
  show "issued (intercepted_fetch idn now (setPaymentHeadersForNextRequest staged self)
                   input (Some i))"
    unfolding r by (simp add: issued_def and_then_def)
  assume m: "(k, v) \<in> set staged"
  have "map_of (fold ?set (spread ?B staged) h0) (toLowerCase k) = Some (normalize_value v)"
    using lowered_lookup [OF dl m, of normalize_value]
    by (simp add: map_of_fold_update fin)
  then show "headers_get (sent_headers (intercepted_fetch idn now
               (setPaymentHeadersForNextRequest staged self) input (Some i))) k
             = Some (normalize_value v)"
    unfolding r by (simp add: sent_headers_def and_then_def headers_get_def)
qed

lemma staged_not_on_plain:
  assumes post: "init_method i = Some ''POST''"
    and free: "staged_names_free self staged"
    and sent: "issued (intercepted_fetch idn now (self\<lparr>pendingPaymentHeaders := None\<rparr>)
                         input (Some i))"
    and m: "(k, v) \<in> set staged"
  shows "headers_get (sent_headers (intercepted_fetch idn now
             (self\<lparr>pendingPaymentHeaders := None\<rparr>) input (Some i))) k
           = headers_get (request_headers i) k"
proof -
  let ?set = "\<lambda>(k, v). AList.update (toLowerCase k) (normalize_value v)"
  note r = plain_send_result [OF post, of idn now self input]
  from sent obtain freshHeaders h0 h1
    where fresh: "generateFreshAuthHeaders idn now (wrapper_token self) = Inr freshHeaders"
      and h0: "Headers_new (init_headers i) = Inr h0"
      and h1: "set_each (spread freshHeaders (baseCustomHeaders self)) h0 = Inr h1"
    unfolding r by (auto simp: issued_def and_then_def split: sum.splits)
  let ?B = "spread freshHeaders (baseCustomHeaders self)"
  have names: "fst ` set ?B = set auth_header_names \<union> fst ` set (baseCustomHeaders self)"
    by (simp add: keys_spread fresh_names [OF fresh])
  from m have "k \<in> fst ` set staged" by force
  with free have "toLowerCase k \<notin> toLowerCase ` fst ` set ?B"
    unfolding names by (auto simp: staged_names_free_def)
  from lowered_absent [OF this, of normalize_value]
  have "map_of (fold ?set ?B h0) (toLowerCase k) = map_of h0 (toLowerCase k)"
    by (simp add: map_of_fold_update map_add_def)
  then have "map_of h1 (toLowerCase k) = map_of h0 (toLowerCase k)"
    using set_each_result [OF h1] by simp
  then show ?thesis
    unfolding r
    by (simp add: fresh h0 h1 sent_headers_def and_then_def headers_get_def request_headers_def)
qed

text \<open>
  Claim C2. Stage a header set, then let two POST requests pass through the intercepted
  \<open>fetch\<close>, the identity functions returning for the first. Whatever \<open>Headers\<close> accepts or
  rejects, the slot is empty when the first call issues its request or throws, and the
  second call is the one of a wrapper with an empty slot. If \<open>Headers\<close> accepts the headers
  of the first send and the staged names clash with no other name, the first request is
  issued and carries every staged header. When the second request is issued, it carries
  under the staged names only what the caller of \<open>fetch\<close> put there itself.
\<close>

theorem staged_headers_sent_once:
  assumes post1: "init_method i1 = Some ''POST''" and post2: "init_method i2 = Some ''POST''"
    and fresh: "generateFreshAuthHeaders idn t1 (wrapper_token self) = Inr freshHeaders"
  shows "let r1 = intercepted_fetch idn t1 (setPaymentHeadersForNextRequest staged self)
                    input1 (Some i1);
             r2 = intercepted_fetch idn t2 (fst r1) input2 (Some i2)
         in pendingPaymentHeaders (fst r1) = None
            \<and> r2 = intercepted_fetch idn t2 (self\<lparr>pendingPaymentHeaders := None\<rparr>)
                     input2 (Some i2)
            \<and> pendingPaymentHeaders (fst r2) = None
            \<and> (send_accepted i1 freshHeaders self staged \<and> staged_names_free self staged
                 \<longrightarrow> issued r1
                     \<and> (\<forall>(k, v) \<in> set staged.
                           headers_get (sent_headers r1) k = Some (normalize_value v)))
            \<and> (staged_names_free self staged \<and> issued r2
                 \<longrightarrow> (\<forall>(k, v) \<in> set staged.
                        headers_get (sent_headers r2) k = headers_get (request_headers i2) k))"
proof -
  let ?r1 = "intercepted_fetch idn t1 (setPaymentHeadersForNextRequest staged self)
               input1 (Some i1)"
  let ?r2 = "intercepted_fetch idn t2 (self\<lparr>pendingPaymentHeaders := None\<rparr>) input2 (Some i2)"
  have s1: "fst ?r1 = self\<lparr>pendingPaymentHeaders := None\<rparr>"
    by (simp add: first_send_result [OF post1 fresh])
  have s2: "pendingPaymentHeaders (fst ?r2) = None"
    by (simp add: plain_send_result [OF post2])
  have a: "issued ?r1 \<and> (\<forall>(k, v) \<in> set staged.
             headers_get (sent_headers ?r1) k = Some (normalize_value v))"
    if "send_accepted i1 freshHeaders self staged" and "staged_names_free self staged"
    using staged_on_first [OF post1 fresh that] by auto
  have b: "\<forall>(k, v) \<in> set staged.
             headers_get (sent_headers ?r2) k = headers_get (request_headers i2) k"
    if "staged_names_free self staged" and "issued ?r2"
    using staged_not_on_plain [OF post2 that] by auto
  show ?thesis
    unfolding Let_def s1
    using s2 a b by simp
qed

theorem staged_headers_sent_once_witness:
  "issued first_send
   \<and> headers_get (sent_headers first_send) ''x-agentpay-authorization'' = Some ''0x02f8b1''
   \<and> headers_get (sent_headers first_send) ''x-agentpay-from''
       = Some ''0x616F5Ab2095EA299a3C819Bf5b381eA342BAfbc9''
   \<and> pendingPaymentHeaders (fst first_send) = None
   \<and> issued second_send
   \<and> headers_get (sent_headers second_send) ''x-agentpay-authorization'' = None
   \<and> headers_get (sent_headers second_send) ''x-agentpay-from'' = None
   \<and> pendingPaymentHeaders (fst second_send) = None"
proof -
  let ?fresh = "[(''X-AgentAuth-Address'', ''0x616F5Ab2095EA299a3C819Bf5b381eA342BAfbc9''),
                 (''X-AgentAuth-Signature'', ''0xsigned''),
                 (''X-AgentAuth-Payload'', ''eyJ0aW1lc3RhbXAiOiIifQ=='')]"
  have g: "generateFreshAuthHeaders sample_identity 10 (wrapper_token sample_wrapper) = Inr ?fresh"
    by code_simp
  have f: "staged_names_free sample_wrapper staged_payment_headers"
    by code_simp
  have c: "send_accepted sample_post ?fresh sample_wrapper staged_payment_headers"
    by code_simp
  have p: "init_method sample_post = Some ''POST''"
    by (simp add: sample_post_def)
  have i: "issued second_send"
    by code_simp
  have n: "headers_get (request_headers sample_post) ''x-agentpay-authorization'' = None"
    "headers_get (request_headers sample_post) ''x-agentpay-from'' = None"
    "normalize_value ''0x02f8b1'' = ''0x02f8b1''"
    "normalize_value ''0x616F5Ab2095EA299a3C819Bf5b381eA342BAfbc9''
       = ''0x616F5Ab2095EA299a3C819Bf5b381eA342BAfbc9''"
    by code_simp+
  have m: "(''x-agentpay-authorization'', ''0x02f8b1'') \<in> set staged_payment_headers"
    "(''x-agentpay-from'', ''0x616F5Ab2095EA299a3C819Bf5b381eA342BAfbc9'') \<in> set staged_payment_headers"
    by (simp_all add: staged_payment_headers_def createAuthorizationHeaders_def)
  note t = staged_headers_sent_once [OF p p g, of staged_payment_headers
      "''https://example.com/mcp''" 20 "''https://example.com/mcp''", unfolded Let_def,
      folded first_send_def, folded second_send_def]
  from t c f have a: "issued first_send"
    and a': "\<forall>(k, v) \<in> set staged_payment_headers.
               headers_get (sent_headers first_send) k = Some (normalize_value v)"
    by blast+
  from t have b: "pendingPaymentHeaders (fst first_send) = None"
    and d: "pendingPaymentHeaders (fst second_send) = None"
    by blast+
  from t f i have c': "\<forall>(k, v) \<in> set staged_payment_headers.
              headers_get (sent_headers second_send) k = headers_get (request_headers sample_post) k"
    by blast
  from a a' m b c' n d i show ?thesis by fastforce
qed

text \<open>
  A staged value with a line break is one that \<open>Headers\<close> rejects: the first call throws
  after it has cleared the slot, and the header is on no request.
\<close>

lemma rejected_header_clears_slot:
  "intercepted_fetch sample_identity 10
     (setPaymentHeadersForNextRequest
        [(''x-agentpay-authorization'', ''0x02'' @ [CHR 0x0A] @ ''f8b1'')] sample_wrapper)
     ''https://example.com/mcp'' (Some sample_post)
   = (sample_wrapper, Inl TypeError)"
  by code_simp

section \<open>Properties of the message proxy\<close>

lemma remote_plain:
  assumes "has_key ''method'' message = Inr b"
    and "paymentHandler = None \<or> detectProtocol pf (payment_handler_detector pf) message = Inr None"
  shows "remote_onmessage pf paymentHandler st message = (st, Inr [SendToClient message])"
  using assms
  by (cases paymentHandler)
     (auto simp: remote_onmessage_def isPaymentRequired_message_def and_then_def)

lemma local_plain:
  assumes "has_key ''method'' message = Inr b"
    and "getp_opt message ''method'' \<noteq> JStr ''initialize''"
    and "paymentHandler = None \<or> \<not> hasPaymentAuthorization message"
  shows "snd (local_onmessage pf paymentHandler stages st message) = Inr [SendToServer message]"
  using assms
  by (cases paymentHandler) (auto simp: local_onmessage_def Let_def)

lemma rename_named:
  assumes "client_name message = Some n"
  shows "rename_client pf message
           = Inr (with_client_name message (n @ '' (via agentauth-mcp 0.1.0)''))"
proof -
  from assms obtain kvs where ci: "getp_opt (getp_opt message ''params'') ''clientInfo'' = JObj kvs"
    and nm: "map_of kvs ''name'' = Some (JStr n)"
    by (auto simp: client_name_def split: jsval.splits option.splits)
  from ci have np: "\<not> nullish (getp_opt message ''params'')"
    by (auto simp: nullish_def)
  show ?thesis
    using ci nm np
    by (simp add: rename_client_def Let_def template_to_string_def and_then_def
        with_client_name_def VERSION_def)
qed

lemma local_initialize:
  assumes "has_key ''method'' message = Inr True"
    and "getp_opt message ''method'' = JStr ''initialize''"
    and "client_name message = Some n"
    and "paymentHandler = None
         \<or> \<not> hasPaymentAuthorization
               (with_client_name message (n @ '' (via agentauth-mcp 0.1.0)''))"
  shows "snd (local_onmessage pf paymentHandler stages st message)
           = Inr [SendToServer (with_client_name message (n @ '' (via agentauth-mcp 0.1.0)''))]"
proof (cases paymentHandler)
  case None
  with assms(1-3) show ?thesis
    by (simp add: local_onmessage_def Let_def rename_named)
next
  case (Some h)
  with assms(4) have "\<not> hasPaymentAuthorization
               (with_client_name message (n @ '' (via agentauth-mcp 0.1.0)''))"
    by simp
  with Some assms(1-3) show ?thesis
    by (simp add: local_onmessage_def Let_def rename_named)
qed

text \<open>
  Claim C1, as amended. A message with no payment indicators is forwarded as the one
  message sent, and unchanged: from the remote side when no protocol is detected, from
  the local side when it is not an approved payment reply and its method is not
  \<open>initialize\<close>. An \<open>initialize\<close> request whose \<open>clientInfo\<close> is an object with a string
  \<open>name\<close> is forwarded with that name followed by \<open>(via agentauth-mcp 0.1.0)\<close>.
\<close>

theorem plain_messages_forwarded:
  "(has_key ''method'' message = Inr b
      \<and> (paymentHandler = None
          \<or> detectProtocol pf (payment_handler_detector pf) message = Inr None)
    \<longrightarrow> remote_onmessage pf paymentHandler st message = (st, Inr [SendToClient message]))
   \<and> (has_key ''method'' message = Inr b
      \<and> getp_opt message ''method'' \<noteq> JStr ''initialize''
      \<and> (paymentHandler = None \<or> \<not> hasPaymentAuthorization message)
    \<longrightarrow> snd (local_onmessage pf paymentHandler stages st message)
          = Inr [SendToServer message])
   \<and> (has_key ''method'' message = Inr True
      \<and> getp_opt message ''method'' = JStr ''initialize''
      \<and> client_name message = Some n
      \<and> (paymentHandler = None
          \<or> \<not> hasPaymentAuthorization
                (with_client_name message (n @ '' (via agentauth-mcp 0.1.0)'')))
    \<longrightarrow> snd (local_onmessage pf paymentHandler stages st message)
          = Inr [SendToServer
                   (with_client_name message (n @ '' (via agentauth-mcp 0.1.0)''))])"
proof (intro conjI impI)
  assume "has_key ''method'' message = Inr b
      \<and> (paymentHandler = None
          \<or> detectProtocol pf (payment_handler_detector pf) message = Inr None)"
  then show "remote_onmessage pf paymentHandler st message = (st, Inr [SendToClient message])"
    by (intro remote_plain [of message b]) simp_all
next
  assume "has_key ''method'' message = Inr b
      \<and> getp_opt message ''method'' \<noteq> JStr ''initialize''
      \<and> (paymentHandler = None \<or> \<not> hasPaymentAuthorization message)"
  then show "snd (local_onmessage pf paymentHandler stages st message)
          = Inr [SendToServer message]"
    by (intro local_plain [of message b]) simp_all
next
  assume "has_key ''method'' message = Inr True
      \<and> getp_opt message ''method'' = JStr ''initialize''
      \<and> client_name message = Some n
      \<and> (paymentHandler = None
          \<or> \<not> hasPaymentAuthorization
                (with_client_name message (n @ '' (via agentauth-mcp 0.1.0)'')))"
  then show "snd (local_onmessage pf paymentHandler stages st message)
          = Inr [SendToServer
                   (with_client_name message (n @ '' (via agentauth-mcp 0.1.0)''))]"
    by (intro local_initialize) simp_all
qed

theorem plain_messages_forwarded_witness:
  "remote_onmessage sample_platform (Some sample_handler) \<lparr>lastRequest = Some plain_request\<rparr>
       plain_response
     = (\<lparr>lastRequest = Some plain_request\<rparr>, Inr [SendToClient plain_response])
   \<and> snd (local_onmessage sample_platform (Some sample_handler) True \<lparr>lastRequest = None\<rparr>
            plain_request)
     = Inr [SendToServer plain_request]
   \<and> snd (local_onmessage sample_platform (Some sample_handler) True \<lparr>lastRequest = None\<rparr>
            (initialize_request ''claude-ai''))
     = Inr [SendToServer (initialize_request ''claude-ai (via agentauth-mcp 0.1.0)'')]"
proof -
  have a: "has_key ''method'' plain_response = Inr False"
    "detectProtocol sample_platform (payment_handler_detector sample_platform) plain_response
       = Inr None"
    by code_simp+
  have b: "has_key ''method'' plain_request = Inr True"
    "getp_opt plain_request ''method'' \<noteq> JStr ''initialize''"
    "\<not> hasPaymentAuthorization plain_request"
    by code_simp+
  have c: "has_key ''method'' (initialize_request ''claude-ai'') = Inr True"
    "getp_opt (initialize_request ''claude-ai'') ''method'' = JStr ''initialize''"
    "client_name (initialize_request ''claude-ai'') = Some ''claude-ai''"
    "with_client_name (initialize_request ''claude-ai'')
       (''claude-ai'' @ '' (via agentauth-mcp 0.1.0)'')
     = initialize_request ''claude-ai (via agentauth-mcp 0.1.0)''"
    "\<not> hasPaymentAuthorization (initialize_request ''claude-ai (via agentauth-mcp 0.1.0)'')"
    by code_simp+
  from plain_messages_forwarded [of plain_response False "Some sample_handler" sample_platform
      "\<lparr>lastRequest = Some plain_request\<rparr>"] a
  have r: "remote_onmessage sample_platform (Some sample_handler)
             \<lparr>lastRequest = Some plain_request\<rparr> plain_response
           = (\<lparr>lastRequest = Some plain_request\<rparr>, Inr [SendToClient plain_response])"
    by simp
  from plain_messages_forwarded [of plain_request True "Some sample_handler" sample_platform
      "\<lparr>lastRequest = None\<rparr>" True] b
  have l: "snd (local_onmessage sample_platform (Some sample_handler) True
                  \<lparr>lastRequest = None\<rparr> plain_request)
           = Inr [SendToServer plain_request]"
    by simp
  from plain_messages_forwarded [of "initialize_request ''claude-ai''" True "Some sample_handler"
      sample_platform "\<lparr>lastRequest = None\<rparr>" True "''claude-ai''"] c
  have i: "snd (local_onmessage sample_platform (Some sample_handler) True
                  \<lparr>lastRequest = None\<rparr> (initialize_request ''claude-ai''))
           = Inr [SendToServer (initialize_request ''claude-ai (via agentauth-mcp 0.1.0)'')]"
    by simp
  from r l i show ?thesis by simp
qed

text \<open>
  An \<open>initialize\<close> request carries no payment indicator, and the message sent to the remote
  side is not the message received.
\<close>

theorem initialize_rewritten_counterexample:
  "\<not> hasPaymentAuthorization (initialize_request ''claude-ai'')
   \<and> snd (local_onmessage sample_platform None False \<lparr>lastRequest = None\<rparr>
            (initialize_request ''claude-ai''))
     = Inr [SendToServer (initialize_request ''claude-ai (via agentauth-mcp 0.1.0)'')]
   \<and> initialize_request ''claude-ai (via agentauth-mcp 0.1.0)''
     \<noteq> initialize_request ''claude-ai''"
  by code_simp

section \<open>Properties of the x402 extraction\<close>

lemma digit_not_space: "is_decimal_digit c \<Longrightarrow> \<not> is_space c"
  by (auto simp: is_decimal_digit_def is_space_def)

lemma includes_point: "str_includes s ''.'' = (CHR ''.'' \<in> set s)"
  by (induction s) (auto simp: startsWith_def)

lemma pure_no_point: "pure_integer_string s \<Longrightarrow> \<not> str_includes s ''.''"
  by (auto simp: includes_point pure_integer_string_def list_all_iff is_decimal_digit_def)

lemma dropWhile_none: "\<forall>x \<in> set xs. \<not> P x \<Longrightarrow> dropWhile P xs = xs"
  by (cases xs) auto

lemma pure_trim:
  assumes "pure_integer_string s" shows "trim s = s"
proof -
  from assms have d: "\<forall>c \<in> set s. \<not> is_space c"
    by (auto simp: pure_integer_string_def list_all_iff digit_not_space)
  then have "\<forall>c \<in> set (rev s). \<not> is_space c" by simp
  with d show ?thesis by (simp add: trim_def dropWhile_none)
qed

lemma pure_bigint:
  assumes "pure_integer_string s"
  shows "StringToBigInt s = parse_digits 10 s"
proof -
  from assms obtain c cs where s: "s = c # cs" and c: "is_decimal_digit c"
    and cs: "list_all is_decimal_digit cs"
    by (cases s) (auto simp: pure_integer_string_def)
  have p1: "\<not> startsWith s ''+''" "\<not> startsWith s ''-''"
    using c by (auto simp: s startsWith_def is_decimal_digit_def)
  have p2: "\<not> startsWith s [a, b]" if "\<not> is_decimal_digit b" for a b
    using cs that by (cases cs) (auto simp: s startsWith_def)
  have nd: "\<not> is_decimal_digit (CHR ''x'')" "\<not> is_decimal_digit (CHR ''X'')"
    "\<not> is_decimal_digit (CHR ''o'')" "\<not> is_decimal_digit (CHR ''O'')"
    "\<not> is_decimal_digit (CHR ''b'')" "\<not> is_decimal_digit (CHR ''B'')"
    by (simp_all add: is_decimal_digit_def)
  show ?thesis
    unfolding StringToBigInt_def Let_def pure_trim [OF assms]
    using p1 p2 [OF nd(1)] p2 [OF nd(2)] p2 [OF nd(3)] p2 [OF nd(4)] p2 [OF nd(5)] p2 [OF nd(6)]
    by (simp add: s)
qed


lemma pure_check:
  assumes "pure_integer_string s" and "parse_digits 10 s = Some n" and "0 < n"
  shows "check_atomic_amount s = Inr n"
  using assms by (simp add: check_atomic_amount_def pure_no_point pure_bigint)

lemma bad_check:
  assumes "CHR ''.'' \<in> set s \<or> StringToBigInt s = None \<or> (\<exists>n. StringToBigInt s = Some n \<and> n \<le> 0)"
  shows "\<exists>e. check_atomic_amount s = Inl e"
  using assms by (auto simp: check_atomic_amount_def includes_point)

lemma extract_bad_amount:
  assumes fr: "getp_opt (first_requirement response) ''maxAmountRequired'' = JStr s"
    and bad: "CHR ''.'' \<in> set s \<or> StringToBigInt s = None
              \<or> (\<exists>n. StringToBigInt s = Some n \<and> n \<le> 0)"
  shows "x402_extractPaymentDetails pf response = None"
proof -
  from bad_check [OF bad] obtain e where e: "check_atomic_amount s = Inl e" by blast
  show ?thesis
  proof (cases "getp_opt response ''accepts''")
    case (JArr xs)
    show ?thesis
    proof (cases xs)
      case Nil
      with JArr show ?thesis
        by (simp add: x402_extractPaymentDetails_def and_then_def split: sum.splits)
    next
      case (Cons requirement others)
      with JArr fr have m: "getp_opt requirement ''maxAmountRequired'' = JStr s"
        by (simp add: first_requirement_def index0_def)
      show ?thesis
        unfolding x402_extractPaymentDetails_def and_then_def
        using JArr Cons m e
        by (simp add: text_of_def split: sum.splits)
    qed
  qed (simp_all add: x402_extractPaymentDetails_def and_then_def split: sum.splits)
qed

lemma digit_val_digit_char: "0 \<le> d \<Longrightarrow> d < 10 \<Longrightarrow> digit_val (digit_char d) = Some d"
  by (simp add: digit_val_def digit_char_def Let_def)

lemma digit_char_not_point: "0 \<le> d \<Longrightarrow> d < 10 \<Longrightarrow> digit_char d \<noteq> CHR ''.''"
proof
  assume d: "0 \<le> d" "d < 10" and e: "digit_char d = CHR ''.''"
  from e have "digit_val (digit_char d) = digit_val (CHR ''.'')" by simp
  with d show False by (simp add: digit_val_digit_char) (simp add: digit_val_def)
qed

lemma digits_value_append:
  "digits_value b (xs @ ys) acc =
     (case digits_value b xs acc of None \<Rightarrow> None | Some a \<Rightarrow> digits_value b ys a)"
  by (induction xs arbitrary: acc) (auto split: option.splits)

lemma decimal_digits_value:
  "0 \<le> n \<Longrightarrow> digits_value 10 (decimal_digits n) acc
                 = Some (acc * 10 ^ length (decimal_digits n) + n)"
proof (induction n arbitrary: acc rule: decimal_digits.induct)
  case (1 n)
  show ?case
  proof (cases "n < 10")
    case True
    with "1.prems" show ?thesis
      by (simp add: decimal_digits.simps [of n] digit_val_digit_char)
  next
    case False
    with "1.prems" have q: "0 \<le> n div 10" by simp
    have r: "0 \<le> n mod 10" "n mod 10 < 10" by simp_all
    have "n div 10 * 10 + n mod 10 = n" by simp
    then show ?thesis
      using False "1.IH" [OF False q]
      by (simp add: decimal_digits.simps [of n] digits_value_append digit_val_digit_char [OF r]
          algebra_simps)
  qed
qed

lemma decimal_digits_chars:
  "0 \<le> n \<Longrightarrow> decimal_digits n \<noteq> [] \<and> CHR ''.'' \<notin> set (decimal_digits n)"
proof (induction n rule: decimal_digits.induct)
  case (1 n)
  show ?case
  proof (cases "n < 10")
    case True
    with "1.prems" digit_char_not_point [of n] show ?thesis
      by (auto simp: decimal_digits.simps [of n])
  next
    case False
    with "1.prems" have q: "0 \<le> n div 10" by simp
    have r: "0 \<le> n mod 10" "n mod 10 < 10" by simp_all
    from "1.IH" [OF False q] digit_char_not_point [OF r] False show ?thesis
      by (auto simp: decimal_digits.simps [of n])
  qed
qed

lemma decimal_digits_length:
  "0 \<le> n \<Longrightarrow> n < 10 ^ k \<Longrightarrow> 0 < k \<Longrightarrow> length (decimal_digits n) \<le> k"
proof (induction n arbitrary: k rule: decimal_digits.induct)
  case (1 n)
  show ?case
  proof (cases "n < 10")
    case True
    with "1.prems" show ?thesis by (simp add: decimal_digits.simps [of n])
  next
    case False
    from "1.prems" obtain j where k: "k = Suc j" by (cases k) auto
    from False "1.prems" k have j: "0 < j" by (cases j) auto
    from "1.prems" k have "n div 10 < 10 ^ j" by simp
    with "1.IH" [OF False _ _ j] "1.prems" have "length (decimal_digits (n div 10)) \<le> j" by simp
    with False k show ?thesis by (simp add: decimal_digits.simps [of n])
  qed
qed


lemma zeros_value:
  "digits_value 10 (replicate k (CHR ''0'')) acc = Some (acc * 10 ^ k)"
  by (induction k arbitrary: acc) (simp_all add: digit_val_def Let_def)

lemma leading_zeros_value:
  "digits_value 10 (replicate k (CHR ''0'') @ ds) 0 = digits_value 10 ds 0"
  by (simp add: digits_value_append zeros_value)

lemma takeWhile_replicate:
  "takeWhile (\<lambda>x. x = c) xs = replicate (length (takeWhile (\<lambda>x. x = c) xs)) c"
  by (induction xs) auto

lemma trailing_split:
  "\<exists>k. f = rev (dropWhile (\<lambda>c. c = z) (rev f)) @ replicate k z"
proof -
  have "rev f = takeWhile (\<lambda>c. c = z) (rev f) @ dropWhile (\<lambda>c. c = z) (rev f)"
    by simp
  then have "f = rev (dropWhile (\<lambda>c. c = z) (rev f)) @ rev (takeWhile (\<lambda>c. c = z) (rev f))"
    by (metis rev_append rev_rev_ident)
  moreover have "rev (takeWhile (\<lambda>c. c = z) (rev f))
                   = replicate (length (takeWhile (\<lambda>c. c = z) (rev f))) z"
    by (subst takeWhile_replicate) simp
  ultimately show ?thesis by metis
qed

lemma strip_value:
  assumes v: "digits_value 10 f 0 = Some v"
  shows "\<exists>v'. parse_digits 10 (strip_trailing_zeros f) = Some v'
           \<and> (of_int v' :: rat) / 10 ^ length (strip_trailing_zeros f) = of_int v / 10 ^ length f"
proof -
  define t where "t = rev (dropWhile (\<lambda>c. c = CHR ''0'') (rev f))"
  have st: "strip_trailing_zeros f = (if t = [] then ''0'' else t)"
    by (simp add: strip_trailing_zeros_def t_def Let_def)
  from trailing_split [of f "CHR ''0''"] obtain k where f: "f = t @ replicate k (CHR ''0'')"
    unfolding t_def by blast
  from v obtain v0 where v0: "digits_value 10 t 0 = Some v0" and vv: "v = v0 * 10 ^ k"
    by (subst (asm) f) (auto simp: digits_value_append zeros_value split: option.splits)
  have len: "length f = length t + k"
    by (subst f) simp
  show ?thesis
  proof (cases "t = []")
    case True
    with v0 have "v0 = 0" by simp
    with vv True show ?thesis
      by (simp add: st parse_digits_def digit_val_def Let_def)
  next
    case False
    have "(of_int v :: rat) / 10 ^ length f = of_int v0 / 10 ^ length t"
      by (simp add: vv len power_add)
    with False v0 show ?thesis
      by (simp add: st parse_digits_def)
  qed
qed

lemma fraction_digits:
  assumes "0 \<le> m" and "m < 10 ^ 6"
  shows "digits_value 10 (padStart 6 (CHR ''0'') (decimal_digits m)) 0 = Some m"
    and "length (padStart 6 (CHR ''0'') (decimal_digits m)) = 6"
proof -
  from decimal_digits_length [OF assms] have l: "length (decimal_digits m) \<le> 6" by simp
  show "digits_value 10 (padStart 6 (CHR ''0'') (decimal_digits m)) 0 = Some m"
    using decimal_digits_value [OF assms(1), of 0]
    by (simp add: padStart_def leading_zeros_value)
  show "length (padStart 6 (CHR ''0'') (decimal_digits m)) = 6"
    using l by (simp add: padStart_def)
qed

lemma formatUnits6_value:
  assumes "0 \<le> n"
  shows "decimal_value (formatUnits6 n) = Some (of_int n / 10 ^ 6)"
proof -
  let ?w = "decimal_digits (n div 10 ^ 6)"
  let ?f = "strip_trailing_zeros (padStart 6 (CHR ''0'') (decimal_digits (n mod 10 ^ 6)))"
  from assms have q: "0 \<le> n div 10 ^ 6" by simp
  have m: "0 \<le> n mod 10 ^ 6" "n mod 10 ^ 6 < 10 ^ 6" by simp_all
  from decimal_digits_chars [OF q] have wne: "?w \<noteq> []" and wp: "CHR ''.'' \<notin> set ?w"
    by simp_all
  have tw: "takeWhile (\<lambda>c. c \<noteq> CHR ''.'') (formatUnits6 n) = ?w"
    using wp by (simp add: formatUnits6_def takeWhile_append)
  have dr: "drop (Suc (length ?w)) (formatUnits6 n) = ?f"
    by (simp add: formatUnits6_def)
  have pw: "parse_digits 10 ?w = Some (n div 10 ^ 6)"
    using decimal_digits_value [OF q, of 0] wne by (simp add: parse_digits_def)
  from strip_value [OF fraction_digits(1) [OF m] ] fraction_digits(2) [OF m]
  obtain v' where pf: "parse_digits 10 ?f = Some v'"
    and fr: "(of_int v' :: rat) / 10 ^ length ?f = of_int (n mod 10 ^ 6) / 10 ^ 6"
    by auto
  have "(of_int (n div 10 ^ 6) :: rat) + of_int (n mod 10 ^ 6) / 10 ^ 6 = of_int n / 10 ^ 6"
  proof -
    have "n = (n div 10 ^ 6) * 10 ^ 6 + n mod 10 ^ 6" by simp
    then have "(of_int n :: rat) = of_int (n div 10 ^ 6) * 10 ^ 6 + of_int (n mod 10 ^ 6)"
      by (metis of_int_add of_int_mult of_int_numeral of_int_power)
    then show ?thesis by (simp add: field_simps)
  qed
  with fr have "(of_int (n div 10 ^ 6) :: rat) + of_int v' / 10 ^ length ?f = of_int n / 10 ^ 6"
    by simp
  then show ?thesis
    unfolding decimal_value_def Let_def tw dr pw pf by simp
qed

lemma valid_addresses:
  assumes "isValidPaymentRequirement pf requirement = Inr True"
  shows "isAddress pf (getp_opt requirement ''payTo'')"
    and "isAddress pf (getp_opt requirement ''asset'')"
proof -
  from assms have "isAddress pf (getp_opt requirement ''payTo'')
      \<and> isAddress pf (getp_opt requirement ''asset'')"
    unfolding isValidPaymentRequirement_def and_then_def
    by (cases "if truthy requirement then has_key ''scheme'' requirement else Inr False")
       simp_all
  then show "isAddress pf (getp_opt requirement ''payTo'')"
    and "isAddress pf (getp_opt requirement ''asset'')"
    by simp_all
qed

lemma good_check:
  assumes "CHR ''.'' \<notin> set s" and "StringToBigInt s = Some n" and "0 < n"
  shows "check_atomic_amount s = Inr n"
  using assms by (simp add: check_atomic_amount_def includes_point)

lemma build_out_of_bounds:
  assumes amt: "getp_opt requirement ''maxAmountRequired'' = JStr s"
    and val: "StringToBigInt s = Some n" and big: "2 ^ 256 \<le> n"
  shows "\<exists>e. buildTransactionFromRequirement pf requirement chainId = Inl e"
proof (cases "check_atomic_amount s")
  case (Inl e)
  with amt show ?thesis
    by (simp add: buildTransactionFromRequirement_def and_then_def text_of_def)
next
  case (Inr m)
  with val have "m = n"
    by (simp add: check_atomic_amount_def split: if_splits)
  with Inr amt big show ?thesis
    by (simp add: buildTransactionFromRequirement_def and_then_def text_of_def
          encodeFunctionData_transfer_def)
qed

lemma extract_out_of_bounds:
  assumes fr: "getp_opt (first_requirement response) ''maxAmountRequired'' = JStr s"
    and val: "StringToBigInt s = Some n" and big: "2 ^ 256 \<le> n"
  shows "x402_extractPaymentDetails pf response = None"
proof (cases "getp_opt response ''accepts''")
  case (JArr xs)
  show ?thesis
  proof (cases xs)
    case Nil
    with JArr show ?thesis
      by (simp add: x402_extractPaymentDetails_def and_then_def split: sum.splits)
  next
    case (Cons requirement others)
    with JArr fr have m: "getp_opt requirement ''maxAmountRequired'' = JStr s"
      by (simp add: first_requirement_def index0_def)
    have b: "buildTransactionFromRequirement pf requirement chainId \<noteq> Inr t" for chainId t
      using build_out_of_bounds [OF m val big, of pf chainId] by auto
    show ?thesis
      unfolding x402_extractPaymentDetails_def and_then_def
      using JArr Cons
      by (auto simp: b split: sum.splits)
  qed
qed (simp_all add: x402_extractPaymentDetails_def and_then_def split: sum.splits)

lemma extract_good_amount:
  assumes v: "getp_opt response ''x402Version'' = JNum 1"
    and acc: "getp_opt response ''accepts'' = JArr (requirement # others)"
    and valid: "isValidPaymentRequirement pf requirement = Inr True"
    and net: "getp_opt requirement ''network'' = JStr ''base''
              \<or> getp_opt requirement ''network'' = JStr ''base-sepolia''"
    and amt: "getp_opt requirement ''maxAmountRequired'' = JStr s"
    and point: "CHR ''.'' \<notin> set s" and val: "StringToBigInt s = Some n"
    and pos: "0 < n" and small: "n < 2 ^ 256"
    and enc: "encodeTransfer pf (getp_opt requirement ''payTo'') s = Inr d"
  shows "\<exists>details. x402_extractPaymentDetails pf response = Some details
           \<and> pd_amount details = formatUnits6 n
           \<and> decimal_value (pd_amount details) = Some (of_int n / 10 ^ 6)
           \<and> pd_currency details = ''USDC''"
proof -
  from v have g: "getp response ''x402Version'' = Inr (JNum 1)"
    by (cases response) (auto split: option.splits)
  note ad = valid_addresses [OF valid]
  have c: "check_atomic_amount s = Inr n" by (rule good_check [OF point val pos])
  from net obtain chainId where ch: "getChainConfig (text_of (getp_opt requirement ''network'')) = Inr chainId"
    by (auto simp: getChainConfig_def text_of_def)
  have b: "\<exists>t. buildTransactionFromRequirement pf requirement chainId = Inr t"
    using ad c enc amt pos small
    by (simp add: buildTransactionFromRequirement_def and_then_def text_of_def
          encodeFunctionData_transfer_def)
  then obtain t where t: "buildTransactionFromRequirement pf requirement chainId = Inr t" by blast
  show ?thesis
    unfolding x402_extractPaymentDetails_def
    using g acc valid ch c t amt pos
    by (simp add: and_then_def text_of_def formatUnits6_value)
qed

text \<open>
  Claim C6, as amended. The amount string is tested with \<open>BigInt\<close>, not for being made of
  decimal digits. For an x402 response of version 1 whose first requirement is valid and
  names a supported network: if \<open>maxAmountRequired\<close> has no decimal point and \<open>BigInt\<close> reads
  from it an integer \<open>n\<close> with \<open>0 < n < 2^256\<close>, and the transfer to the recipient is encoded,
  the extraction returns a challenge whose amount is \<open>formatUnits(n, 6)\<close>, a decimal string
  that denotes \<open>n / 10^6\<close>, so that \<open>1000000\<close> is presented as \<open>1.0\<close>; this holds of every pure
  integer string in that range. For every response: if the amount string of the first
  requirement has a decimal point, or \<open>BigInt\<close> rejects it, or it denotes an integer that is
  not positive or not below \<open>2^256\<close>, the extraction returns \<open>null\<close>.
\<close>

theorem x402_amount_normalized:
  "(getp_opt response ''x402Version'' = JNum 1
      \<and> getp_opt response ''accepts'' = JArr (requirement # others)
      \<and> isValidPaymentRequirement pf requirement = Inr True
      \<and> (getp_opt requirement ''network'' = JStr ''base''
          \<or> getp_opt requirement ''network'' = JStr ''base-sepolia'')
      \<and> getp_opt requirement ''maxAmountRequired'' = JStr s
      \<and> CHR ''.'' \<notin> set s \<and> StringToBigInt s = Some n \<and> 0 < n \<and> n < 2 ^ 256
      \<and> encodeTransfer pf (getp_opt requirement ''payTo'') s = Inr d
    \<longrightarrow> (\<exists>details. x402_extractPaymentDetails pf response = Some details
           \<and> pd_amount details = formatUnits6 n
           \<and> decimal_value (pd_amount details) = Some (of_int n / 10 ^ 6)
           \<and> pd_currency details = ''USDC''))
   \<and> (pure_integer_string s \<longrightarrow> CHR ''.'' \<notin> set s \<and> StringToBigInt s = parse_digits 10 s)
   \<and> (getp_opt (first_requirement response) ''maxAmountRequired'' = JStr s
      \<and> (CHR ''.'' \<in> set s \<or> StringToBigInt s = None
          \<or> (\<exists>m. StringToBigInt s = Some m \<and> (m \<le> 0 \<or> 2 ^ 256 \<le> m)))
    \<longrightarrow> x402_extractPaymentDetails pf response = None)
   \<and> formatUnits6 1000000 = ''1.0''"
proof (intro conjI impI)
  assume "getp_opt response ''x402Version'' = JNum 1
      \<and> getp_opt response ''accepts'' = JArr (requirement # others)
      \<and> isValidPaymentRequirement pf requirement = Inr True
      \<and> (getp_opt requirement ''network'' = JStr ''base''
          \<or> getp_opt requirement ''network'' = JStr ''base-sepolia'')
      \<and> getp_opt requirement ''maxAmountRequired'' = JStr s
      \<and> CHR ''.'' \<notin> set s \<and> StringToBigInt s = Some n \<and> 0 < n \<and> n < 2 ^ 256
      \<and> encodeTransfer pf (getp_opt requirement ''payTo'') s = Inr d"
  then show "\<exists>details. x402_extractPaymentDetails pf response = Some details
           \<and> pd_amount details = formatUnits6 n
           \<and> decimal_value (pd_amount details) = Some (of_int n / 10 ^ 6)
           \<and> pd_currency details = ''USDC''"
    by (intro extract_good_amount [of response requirement others pf s n d]) simp_all
next
  assume "pure_integer_string s"
  then show "CHR ''.'' \<notin> set s"
    using pure_no_point [of s] by (simp add: includes_point)
next
  assume "pure_integer_string s"
  then show "StringToBigInt s = parse_digits 10 s" by (rule pure_bigint)
next
  assume h: "getp_opt (first_requirement response) ''maxAmountRequired'' = JStr s
      \<and> (CHR ''.'' \<in> set s \<or> StringToBigInt s = None
          \<or> (\<exists>m. StringToBigInt s = Some m \<and> (m \<le> 0 \<or> 2 ^ 256 \<le> m)))"
  show "x402_extractPaymentDetails pf response = None"
  proof (cases "\<exists>m. StringToBigInt s = Some m \<and> 2 ^ 256 \<le> m")
    case True
    then obtain m where "StringToBigInt s = Some m" and "2 ^ 256 \<le> m" by blast
    with h show ?thesis by (intro extract_out_of_bounds [of response s m]) simp_all
  next
    case False
    with h have "CHR ''.'' \<in> set s \<or> StringToBigInt s = None
          \<or> (\<exists>m. StringToBigInt s = Some m \<and> m \<le> 0)"
      by auto
    with h show ?thesis by (intro extract_bad_amount [of response s]) simp_all
  qed
next
  show "formatUnits6 1000000 = ''1.0''" by code_simp
qed

theorem x402_amount_normalized_witness:
  "map_option pd_amount (x402_extractPaymentDetails sample_platform (x402_challenge ''1000000''))
     = Some ''1.0''
   \<and> decimal_value ''1.0'' = Some 1
   \<and> map_option pd_amount (x402_extractPaymentDetails sample_platform (x402_challenge ''+5''))
     = Some ''0.000005''
   \<and> StringToBigInt ''1000000'' = Some 1000000
   \<and> x402_extractPaymentDetails sample_platform (x402_challenge ''1.5'') = None
   \<and> x402_extractPaymentDetails sample_platform (x402_challenge ''0'') = None
   \<and> x402_extractPaymentDetails sample_platform (x402_challenge ''12a'') = None
   \<and> x402_extractPaymentDetails sample_platform (x402_challenge uint256_overflow) = None"
proof -
  let ?requirement = "first_requirement (x402_challenge ''1000000'')"
  let ?signed = "first_requirement (x402_challenge ''+5'')"
  have a: "getp_opt (x402_challenge ''1000000'') ''x402Version'' = JNum 1"
    "getp_opt (x402_challenge ''1000000'') ''accepts'' = JArr [?requirement]"
    "isValidPaymentRequirement sample_platform ?requirement = Inr True"
    "getp_opt ?requirement ''network'' = JStr ''base''"
    "getp_opt ?requirement ''maxAmountRequired'' = JStr ''1000000''"
    "CHR ''.'' \<notin> set ''1000000''" "StringToBigInt ''1000000'' = Some 1000000"
    "(1000000 :: int) < 2 ^ 256"
    "encodeTransfer sample_platform (getp_opt ?requirement ''payTo'') ''1000000'' = Inr full_data"
    by code_simp+
  have a': "getp_opt (x402_challenge ''+5'') ''x402Version'' = JNum 1"
    "getp_opt (x402_challenge ''+5'') ''accepts'' = JArr [?signed]"
    "isValidPaymentRequirement sample_platform ?signed = Inr True"
    "getp_opt ?signed ''network'' = JStr ''base''"
    "getp_opt ?signed ''maxAmountRequired'' = JStr ''+5''"
    "CHR ''.'' \<notin> set ''+5''" "StringToBigInt ''+5'' = Some 5"
    "(5 :: int) < 2 ^ 256"
    "encodeTransfer sample_platform (getp_opt ?signed ''payTo'') ''+5'' = Inr full_data"
    "formatUnits6 5 = ''0.000005''"
    by code_simp+
  have q: "pure_integer_string ''1000000''" "parse_digits 10 ''1000000'' = Some 1000000"
    by code_simp+
  have b: "getp_opt (first_requirement (x402_challenge ''1.5'')) ''maxAmountRequired'' = JStr ''1.5''"
    "getp_opt (first_requirement (x402_challenge ''0'')) ''maxAmountRequired'' = JStr ''0''"
    "getp_opt (first_requirement (x402_challenge ''12a'')) ''maxAmountRequired'' = JStr ''12a''"
    "getp_opt (first_requirement (x402_challenge uint256_overflow)) ''maxAmountRequired''
       = JStr uint256_overflow"
    "StringToBigInt ''0'' = Some 0" "StringToBigInt ''12a'' = None"
    "StringToBigInt uint256_overflow = Some (2 ^ 256)"
    by code_simp+
  from x402_amount_normalized [of "x402_challenge ''1000000''" ?requirement "[]" sample_platform
      "''1000000''" 1000000 full_data] a
  have g: "map_option pd_amount
             (x402_extractPaymentDetails sample_platform (x402_challenge ''1000000''))
           = Some ''1.0''"
    by auto
  from x402_amount_normalized [of "x402_challenge ''+5''" ?signed "[]" sample_platform
      "''+5''" 5 full_data] a'
  have s: "map_option pd_amount
             (x402_extractPaymentDetails sample_platform (x402_challenge ''+5''))
           = Some ''0.000005''"
    by auto
  from x402_amount_normalized [of _ _ _ sample_platform "''1000000''"] q
  have r: "StringToBigInt ''1000000'' = Some 1000000"
    by simp
  from x402_amount_normalized [of "x402_challenge ''1.5''" _ _ sample_platform "''1.5''"] b
  have p: "x402_extractPaymentDetails sample_platform (x402_challenge ''1.5'') = None"
    by simp
  from x402_amount_normalized [of "x402_challenge ''0''" _ _ sample_platform "''0''"] b
  have z: "x402_extractPaymentDetails sample_platform (x402_challenge ''0'') = None"
    by simp
  from x402_amount_normalized [of "x402_challenge ''12a''" _ _ sample_platform "''12a''"] b
  have l: "x402_extractPaymentDetails sample_platform (x402_challenge ''12a'') = None"
    by simp
  from x402_amount_normalized [of "x402_challenge uint256_overflow" _ _ sample_platform
      uint256_overflow] b
  have o: "x402_extractPaymentDetails sample_platform (x402_challenge uint256_overflow) = None"
    by simp
  have v: "decimal_value ''1.0'' = Some 1"
    by code_simp
  from g s r p z l o v show ?thesis by simp
qed

text \<open>
  The claim as stated fails in both directions. The string \<open>0x10\<close> is not a pure integer
  string, yet \<open>BigInt\<close> reads 16 from it and the extraction returns a challenge with the
  amount \<open>0.000016\<close>; so it does for \<open>42\<close> between spaces. The decimal digits of \<open>2^256\<close> are a
  pure positive integer string, yet the extraction returns \<open>null\<close>, because the transfer of
  that amount cannot be encoded.
\<close>

theorem impure_amount_accepted_counterexample:
  "\<not> pure_integer_string ''0x10''
   \<and> map_option pd_amount (x402_extractPaymentDetails sample_platform (x402_challenge ''0x10''))
       = Some ''0.000016''
   \<and> \<not> pure_integer_string '' 42 ''
   \<and> map_option pd_amount (x402_extractPaymentDetails sample_platform (x402_challenge '' 42 ''))
       = Some ''0.000042''
   \<and> pure_integer_string uint256_overflow
   \<and> parse_digits 10 uint256_overflow = Some (2 ^ 256)
   \<and> x402_extractPaymentDetails sample_platform (x402_challenge uint256_overflow) = None"
  by code_simp

end
